theory Spec2Isabelle
  imports Complex_Main "HOL-Library.AList"
begin

section \<open>Parameter compilation of cosmoprimo (\<^verbatim>\<open>cosmoprimo/cosmology.py\<close>)\<close>

text \<open>
  A shallow embedding of \<^verbatim>\<open>find_conflicts\<close>, \<^verbatim>\<open>check_params\<close>, \<^verbatim>\<open>merge_params\<close>,
  \<^verbatim>\<open>compile_params\<close>, \<^verbatim>\<open>Cosmology.__init__\<close> and \<^verbatim>\<open>Cosmology.clone\<close>.

  Conventions of the embedding:
  \<^item> A Python \<^verbatim>\<open>dict\<close> is an association list in insertion order (\<^verbatim>\<open>d[k] = v\<close> keeps the
    position of an existing key and appends a new one, \<^verbatim>\<open>d.pop(k)\<close> removes the entry).
  \<^item> A Python or numpy float is an exact real number, or one of the three IEEE special
    values (type \<open>fl\<close>). Rounding, overflow and the sign of zero are not represented;
    \<open>NaN\<close> and the infinities are, because the code produces them (\<^verbatim>\<open>np.sqrt\<close> of a
    negative number, numpy division by zero) and branches on comparisons with them.
  \<^item> Every \<^verbatim>\<open>raise\<close> is a value \<open>Inl e\<close> of the result; a \<^verbatim>\<open>while\<close> loop that
    does not stop is the value \<open>None\<close>.
  \<^item> The modules \<^verbatim>\<open>constants\<close>, \<^verbatim>\<open>interpolator\<close> and \<^verbatim>\<open>utils\<close> and the library
    \<^verbatim>\<open>scipy\<close> are not part of the sources; what the code takes from them is the
    record \<open>env\<close>, a parameter of the model.
\<close>

subsection \<open>Floating-point values\<close>

datatype fl = Fin real | PInf | NInf | NaN

fun fneg :: "fl \<Rightarrow> fl" where
  "fneg (Fin a) = Fin (- a)"
| "fneg PInf = NInf"
| "fneg NInf = PInf"
| "fneg NaN = NaN"

fun fadd :: "fl \<Rightarrow> fl \<Rightarrow> fl" where
  "fadd NaN y = NaN"
| "fadd x NaN = NaN"
| "fadd (Fin a) (Fin b) = Fin (a + b)"
| "fadd PInf NInf = NaN"
| "fadd NInf PInf = NaN"
| "fadd PInf y = PInf"
| "fadd x PInf = PInf"
| "fadd NInf y = NInf"
| "fadd x NInf = NInf"

definition fsub :: "fl \<Rightarrow> fl \<Rightarrow> fl" where
  "fsub x y = fadd x (fneg y)"

text \<open>The sign of a value (\<open>0\<close> for zero) and the infinity of a given sign;
  an infinity of sign zero is the invalid operation, \<open>NaN\<close>.\<close>

fun fsgn :: "fl \<Rightarrow> real" where
  "fsgn (Fin a) = sgn a"
| "fsgn PInf = 1"
| "fsgn NInf = - 1"
| "fsgn NaN = 0"

definition inf_of_sign :: "real \<Rightarrow> fl" where
  "inf_of_sign s = (if 0 < s then PInf else if s < 0 then NInf else NaN)"

fun fmul :: "fl \<Rightarrow> fl \<Rightarrow> fl" where
  "fmul NaN y = NaN"
| "fmul x NaN = NaN"
| "fmul (Fin a) (Fin b) = Fin (a * b)"
| "fmul x y = inf_of_sign (fsgn x * fsgn y)"

text \<open>numpy division: division by zero is an infinity (or \<open>NaN\<close> for \<open>0/0\<close>), with a
  warning and no exception.\<close>

fun np_div :: "fl \<Rightarrow> fl \<Rightarrow> fl" where
  "np_div NaN y = NaN"
| "np_div x NaN = NaN"
| "np_div (Fin a) (Fin b) = (if b = 0 then inf_of_sign (sgn a) else Fin (a / b))"
| "np_div (Fin a) y = Fin 0"
| "np_div x (Fin b) = inf_of_sign (fsgn x * (if b < 0 then - 1 else 1))"
| "np_div x y = NaN"

fun fsqrt :: "fl \<Rightarrow> fl" where
  "fsqrt (Fin a) = (if a < 0 then NaN else Fin (sqrt a))"
| "fsqrt PInf = PInf"
| "fsqrt NInf = NaN"
| "fsqrt NaN = NaN"

fun fabs :: "fl \<Rightarrow> fl" where
  "fabs (Fin a) = Fin \<bar>a\<bar>"
| "fabs PInf = PInf"
| "fabs NInf = PInf"
| "fabs NaN = NaN"

fun fexp :: "fl \<Rightarrow> fl" where
  "fexp (Fin a) = Fin (exp a)"
| "fexp PInf = PInf"
| "fexp NInf = Fin 0"
| "fexp NaN = NaN"

text \<open>Comparison \<^verbatim>\<open>x < y\<close>: false as soon as one side is \<open>NaN\<close>.\<close>

fun flt :: "fl \<Rightarrow> fl \<Rightarrow> bool" where
  "flt NaN y = False"
| "flt x NaN = False"
| "flt (Fin a) (Fin b) = (a < b)"
| "flt x NInf = False"
| "flt PInf y = False"
| "flt x y = True"

definition fgt :: "fl \<Rightarrow> fl \<Rightarrow> bool" where
  "fgt x y = flt y x"

text \<open>Comparison \<^verbatim>\<open>x <= y\<close>.\<close>

definition fle :: "fl \<Rightarrow> fl \<Rightarrow> bool" where
  "fle x y = (flt x y \<or> (x = y \<and> x \<noteq> NaN))"

definition fsquare :: "fl \<Rightarrow> fl" where
  "fsquare x = fmul x x"

definition fpow4 :: "fl \<Rightarrow> fl" where
  "fpow4 x = fsquare (fsquare x)"

subsection \<open>Python values, dictionaries and exceptions\<close>

datatype scalar = SNone | SNum fl | SBool bool | SStr string

datatype pyval = Sc scalar | Li "scalar list"

type_synonym 'v dict = "(string \<times> 'v) list"

type_synonym pydict = "pyval dict"

definition has_key :: "'v dict \<Rightarrow> string \<Rightarrow> bool" where
  "has_key d k = (k \<in> set (map fst d))"

text \<open>The exceptions of the code, one constructor for each \<^verbatim>\<open>raise\<close> statement and one
  for each kind of exception raised by the interpreter. \<open>Unmodelled\<close> is not an
  exception: it marks a run that leaves the value types above (a complex number, a
  numpy array obtained by broadcasting over a list).\<close>

datatype error =
    Conflict "string list"
  | HierarchyWithList
  | NegativeSum
  | UnknownHierarchy
  | NormalBelowMinimum
  | InvertedBelowMinimum
  | NegativeNur
  | SameLength
  | MustBeList string
  | TypeError
  | KeyError string
  | IndexError
  | NameError string
  | ZeroDivisionError
  | Unmodelled

subsection \<open>\<^verbatim>\<open>find_conflicts\<close>, \<^verbatim>\<open>check_params\<close>, \<^verbatim>\<open>merge_params\<close>\<close>

definition conflicts :: "string list list" where
  "conflicts =
    [[''h'', ''H0''],
     [''T_cmb'', ''Omega_g'', ''omega_g'', ''Omega0_g''],
     [''Omega_b'', ''omega_b'', ''Omega0_b''],
     [''N_ur'', ''Omega_ur'', ''omega_ur'', ''Omega0_ur'', ''N_eff''],
     [''Omega_cdm'', ''omega_cdm'', ''Omega0_cdm'', ''Omega_c'', ''omega_c''],
     [''m_ncdm'', ''Omega_ncdm'', ''omega_ncdm'', ''Omega0_ncdm''],
     [''A_s'', ''ln10^{10}A_s'', ''sigma8''],
     [''tau_reio'', ''z_reio'']]"

fun first_group :: "string \<Rightarrow> string list list \<Rightarrow> string list" where
  "first_group name [] = []"
| "first_group name (conf # rest) = (if name \<in> set conf then conf else first_group name rest)"

definition find_conflicts :: "string \<Rightarrow> string list" where
  "find_conflicts name = first_group name conflicts"

text \<open>\<^verbatim>\<open>check_params\<close>: the first loop fills \<^verbatim>\<open>conf[name]\<close> for every name of \<^verbatim>\<open>args\<close>,
  the second raises at the first name whose list is not empty.\<close>

definition conf_of :: "'v dict \<Rightarrow> string \<Rightarrow> string list" where
  "conf_of args name = filter (\<lambda>eq. eq \<noteq> name \<and> has_key args eq) (find_conflicts name)"

fun raise_first :: "(string \<times> string list) list \<Rightarrow> error + unit" where
  "raise_first [] = Inr ()"
| "raise_first ((name, c) # rest) =
     (if c \<noteq> [] then Inl (Conflict (name # c)) else raise_first rest)"

definition check_params :: "'v dict \<Rightarrow> error + unit" where
  "check_params args = raise_first (map (\<lambda>name. (name, conf_of args name)) (map fst args))"

text \<open>\<^verbatim>\<open>merge_params\<close>: for every name of \<^verbatim>\<open>moreargs\<close>, pop its conflict group from
  \<^verbatim>\<open>args\<close>; then \<^verbatim>\<open>args.update(moreargs)\<close>.\<close>

definition pop_conflicts :: "string \<Rightarrow> 'v dict \<Rightarrow> 'v dict" where
  "pop_conflicts name args = fold AList.delete (find_conflicts name) args"

definition dict_update :: "'v dict \<Rightarrow> 'v dict \<Rightarrow> 'v dict" where
  "dict_update args moreargs = fold (\<lambda>(k, v). AList.update k v) moreargs args"

definition merge_params :: "'v dict \<Rightarrow> 'v dict \<Rightarrow> 'v dict" where
  "merge_params args moreargs =
     dict_update (fold pop_conflicts (map fst moreargs) args) moreargs"

subsection \<open>What the code takes from modules that are not in the sources\<close>

datatype momentum = Rho | Drhodm | Pressure

text \<open>\<open>compute_ncdm_momenta E out T_eff m\<close> stands for
  \<^verbatim>\<open>_compute_ncdm_momenta(T_eff, m, z=0, out=out)\<close>, whose value comes from
  \<^verbatim>\<open>scipy.integrate.quad\<close> and the physical constants; \<open>get_default_z_callable\<close> for
  \<^verbatim>\<open>interpolator.get_default_z_callable()\<close>; the other fields for the constants of
  the same names in \<^verbatim>\<open>constants\<close> (\<open>speed_c\<close> for \<^verbatim>\<open>constants.c\<close>).\<close>

record env =
  TCMB :: real
  TNCDM :: real
  NEFF :: real
  speed_c :: real
  Stefan_Boltzmann :: real
  rho_crit_kgph_per_mph3 :: real
  rho_crit_Msunph_per_Mpcph3 :: real
  get_default_z_callable :: "scalar list"
  compute_ncdm_momenta :: "momentum \<Rightarrow> fl \<Rightarrow> fl \<Rightarrow> error + fl"

subsection \<open>Helpers: exceptions, dictionary access, Python arithmetic\<close>

definition ebind :: "error + 'a \<Rightarrow> ('a \<Rightarrow> error + 'b) \<Rightarrow> error + 'b" where
  "ebind m f = (case m of Inl e \<Rightarrow> Inl e | Inr x \<Rightarrow> f x)"

definition lbind :: "(error + 'a) option \<Rightarrow> ('a \<Rightarrow> (error + 'b) option) \<Rightarrow> (error + 'b) option" where
  "lbind m f = (case m of None \<Rightarrow> None | Some (Inl e) \<Rightarrow> Some (Inl e) | Some (Inr x) \<Rightarrow> f x)"

fun emap :: "('a \<Rightarrow> error + 'b) \<Rightarrow> 'a list \<Rightarrow> error + 'b list" where
  "emap f [] = Inr []"
| "emap f (x # xs) = ebind (f x) (\<lambda>y. ebind (emap f xs) (\<lambda>ys. Inr (y # ys)))"

fun efold :: "('a \<Rightarrow> 's \<Rightarrow> error + 's) \<Rightarrow> 'a list \<Rightarrow> 's \<Rightarrow> error + 's" where
  "efold f [] s = Inr s"
| "efold f (x # xs) s = ebind (f x s) (efold f xs)"

text \<open>\<^verbatim>\<open>d[k]\<close>, \<^verbatim>\<open>d.pop(k)\<close> and \<^verbatim>\<open>d.get(k, default)\<close>.\<close>

definition lookup :: "'v dict \<Rightarrow> string \<Rightarrow> error + 'v" where
  "lookup d k = (case map_of d k of None \<Rightarrow> Inl (KeyError k) | Some v \<Rightarrow> Inr v)"

definition pop :: "'v dict \<Rightarrow> string \<Rightarrow> error + ('v \<times> 'v dict)" where
  "pop d k = (case map_of d k of None \<Rightarrow> Inl (KeyError k) | Some v \<Rightarrow> Inr (v, AList.delete k d))"

definition get_or :: "'v dict \<Rightarrow> string \<Rightarrow> 'v \<Rightarrow> 'v" where
  "get_or d k dflt = (case map_of d k of None \<Rightarrow> dflt | Some v \<Rightarrow> v)"

text \<open>The number a scalar stands for in arithmetic and comparisons (a \<^verbatim>\<open>bool\<close> is an
  \<^verbatim>\<open>int\<close>); \<^verbatim>\<open>None\<close> and strings raise \<^verbatim>\<open>TypeError\<close> there, and so does a list.\<close>

fun num_of :: "scalar \<Rightarrow> fl option" where
  "num_of (SNum x) = Some x"
| "num_of (SBool b) = Some (Fin (if b then 1 else 0))"
| "num_of SNone = None"
| "num_of (SStr s) = None"

definition num_scalar :: "scalar \<Rightarrow> error + fl" where
  "num_scalar s = (case num_of s of None \<Rightarrow> Inl TypeError | Some x \<Rightarrow> Inr x)"

fun as_num :: "pyval \<Rightarrow> error + fl" where
  "as_num (Sc s) = num_scalar s"
| "as_num (Li xs) = Inl TypeError"

text \<open>Division of Python floats raises on a zero divisor.\<close>

definition py_div :: "fl \<Rightarrow> fl \<Rightarrow> error + fl" where
  "py_div x y = (if y = Fin 0 then Inl ZeroDivisionError else Inr (np_div x y))"

text \<open>The builtin \<^verbatim>\<open>sum\<close> (which starts from \<open>0\<close>), \<^verbatim>\<open>x == 0\<close>, \<^verbatim>\<open>0 in xs\<close>,
  \<^verbatim>\<open>np.ndim(x) == 0\<close> and the local function \<^verbatim>\<open>make_list\<close>.\<close>

definition py_sum :: "fl list \<Rightarrow> fl" where
  "py_sum xs = foldl fadd (Fin 0) xs"

fun py_eq0 :: "scalar \<Rightarrow> bool" where
  "py_eq0 (SNum (Fin a)) = (a = 0)"
| "py_eq0 (SBool b) = (\<not> b)"
| "py_eq0 s = False"

definition zero_in :: "scalar list \<Rightarrow> bool" where
  "zero_in xs = list_ex py_eq0 xs"

fun ndim0 :: "pyval \<Rightarrow> bool" where
  "ndim0 (Sc s) = True"
| "ndim0 (Li xs) = False"

fun make_list :: "pyval \<Rightarrow> string \<Rightarrow> error + scalar list" where
  "make_list (Li xs) name = Inr xs"
| "make_list (Sc s) name = Inl (MustBeList name)"

definition square_of :: "pyval \<Rightarrow> error + fl" where
  "square_of h = ebind (as_num h) (\<lambda>x. Inr (fsquare x))"

subsection \<open>\<^verbatim>\<open>compile_params\<close>: names and aliases (lines 723 to 763)\<close>

text \<open>\<^verbatim>\<open>if 'H0' in params: params['h'] = params.pop('H0')/100.\<close>\<close>

definition step_H0 :: "pydict \<Rightarrow> error + pydict" where
  "step_H0 params =
     (if has_key params ''H0'' then
        ebind (pop params ''H0'') (\<lambda>(v, p).
        ebind (as_num v) (\<lambda>x.
        Inr (AList.update ''h'' (Sc (SNum (np_div x (Fin 100)))) p)))
      else Inr params)"

text \<open>\<^verbatim>\<open>o/h**2\<close> for one entry, and \<^verbatim>\<open>name.replace('omega','Omega')\<close>.\<close>

definition div_h2 :: "pyval \<Rightarrow> scalar \<Rightarrow> error + scalar" where
  "div_h2 h omega =
     ebind (square_of h) (\<lambda>h2.
     ebind (num_scalar omega) (\<lambda>x.
     ebind (py_div x h2) (\<lambda>q. Inr (SNum q))))"

function replace_omega :: "string \<Rightarrow> string" where
  "replace_omega [] = []"
| "replace_omega (x # xs) =
     (if take 5 (x # xs) = ''omega'' then ''Omega'' @ replace_omega (drop 4 xs)
      else x # replace_omega xs)"
  by pat_completeness auto
termination
  by (relation "measure length") auto

text \<open>The body of \<^verbatim>\<open>for name,value in args.items()\<close>.\<close>

definition step_omega :: "pyval \<Rightarrow> string \<Rightarrow> pydict \<Rightarrow> error + pydict" where
  "step_omega h name params =
     (if take 5 name = ''omega'' then
        ebind (pop params name) (\<lambda>(omega, p).
        ebind (case omega of
                 Li os \<Rightarrow> ebind (emap (div_h2 h) os) (\<lambda>l. Inr (Li l))
               | Sc s \<Rightarrow> ebind (div_h2 h s) (\<lambda>q. Inr (Sc q))) (\<lambda>Omega.
        Inr (AList.update (replace_omega name) Omega p)))
      else Inr params)"

text \<open>The local function \<^verbatim>\<open>set_alias\<close> and its fourteen calls, in the order of the
  source (\<^verbatim>\<open>'Omega0_ncdm'\<close> is there twice).\<close>

definition set_alias :: "pydict \<Rightarrow> string \<times> string \<Rightarrow> pydict \<Rightarrow> error + pydict" where
  "set_alias args names params =
     (case names of (params_name, args_name) \<Rightarrow>
        if \<not> has_key args args_name then Inr params
        else ebind (pop params args_name) (\<lambda>(v, p). Inr (AList.update params_name v p)))"

definition aliases :: "(string \<times> string) list" where
  "aliases =
    [(''T_cmb'', ''T0_cmb''),
     (''Omega_m'', ''Omega0_m''),
     (''Omega_cdm'', ''Omega0_cdm''),
     (''Omega_cdm'', ''Omega_c''),
     (''Omega_ncdm'', ''Omega0_ncdm''),
     (''Omega_b'', ''Omega0_b''),
     (''Omega_k'', ''Omega0_k''),
     (''Omega_ur'', ''Omega0_ur''),
     (''Omega_Lambda'', ''Omega_lambda''),
     (''Omega_Lambda'', ''Omega0_lambda''),
     (''Omega_Lambda'', ''Omega0_Lambda''),
     (''Omega_fld'', ''Omega0_fld''),
     (''Omega_ncdm'', ''Omega0_ncdm''),
     (''Omega_g'', ''Omega0_g'')]"

text \<open>\<^verbatim>\<open>params['A_s'] = np.exp(params.pop('ln10^{10}A_s'))*10**(-10)\<close>; \<^verbatim>\<open>np.exp\<close> maps
  over a list.\<close>

definition amplitude :: "scalar \<Rightarrow> error + scalar" where
  "amplitude s = ebind (num_scalar s) (\<lambda>x. Inr (SNum (fmul (fexp x) (Fin (1 / 10 ^ 10)))))"

definition step_ln_A_s :: "pydict \<Rightarrow> error + pydict" where
  "step_ln_A_s params =
     (if has_key params ''ln10^{10}A_s'' then
        ebind (pop params ''ln10^{10}A_s'') (\<lambda>(v, p).
        ebind (case v of
                 Sc s \<Rightarrow> ebind (amplitude s) (\<lambda>a. Inr (Sc a))
               | Li xs \<Rightarrow> ebind (emap amplitude xs) (\<lambda>l. Inr (Li l))) (\<lambda>A.
        Inr (AList.update ''A_s'' A p)))
      else Inr params)"

text \<open>\<^verbatim>\<open>x**0.25\<close>: for a negative \<open>x\<close> Python returns a complex number.\<close>

fun pow_quarter :: "fl \<Rightarrow> error + fl" where
  "pow_quarter (Fin a) = (if a < 0 then Inl Unmodelled else Inr (Fin (a powr (1 / 4))))"
| "pow_quarter PInf = Inr PInf"
| "pow_quarter NInf = Inr PInf"
| "pow_quarter NaN = Inr NaN"

definition step_Omega_g :: "env \<Rightarrow> pyval \<Rightarrow> pydict \<Rightarrow> error + pydict" where
  "step_Omega_g E h params =
     (if has_key params ''Omega_g'' then
        ebind (pop params ''Omega_g'') (\<lambda>(v, p).
        ebind (square_of h) (\<lambda>h2.
        ebind (as_num v) (\<lambda>x.
        ebind (py_div (fmul (fmul x h2) (Fin (rho_crit_kgph_per_mph3 E)))
                 (Fin (4 / speed_c E ^ 3 * Stefan_Boltzmann E))) (\<lambda>b.
        ebind (pow_quarter b) (\<lambda>t.
        Inr (AList.update ''T_cmb'' (Sc (SNum t)) p))))))
      else Inr params)"

text \<open>Lines 723 to 763: the normalised dictionary and the local variable \<^verbatim>\<open>h\<close>.\<close>

definition normalise :: "env \<Rightarrow> pydict \<Rightarrow> error + (pydict \<times> pyval)" where
  "normalise E args =
     ebind (step_H0 args) (\<lambda>p1.
     ebind (lookup p1 ''h'') (\<lambda>h.
     ebind (efold (step_omega h) (map fst args) p1) (\<lambda>p2.
     ebind (efold (set_alias args) aliases p2) (\<lambda>p3.
     ebind (step_ln_A_s p3) (\<lambda>p4.
     ebind (step_Omega_g E h p4) (\<lambda>p5.
     Inr (p5, h)))))))"

subsection \<open>\<^verbatim>\<open>compile_params\<close>: masses from density fractions (lines 770 to 828)\<close>

text \<open>\<^verbatim>\<open>_compute_ncdm_momenta(T_eff, m, z=0, out=...)/constants.rho_crit_Msunph_per_Mpcph3\<close>.\<close>

definition omega_of :: "env \<Rightarrow> momentum \<Rightarrow> fl \<Rightarrow> fl \<Rightarrow> error + fl" where
  "omega_of E out T_eff m =
     ebind (compute_ncdm_momenta E out T_eff m) (\<lambda>r.
     py_div r (Fin (rho_crit_Msunph_per_Mpcph3 E)))"

text \<open>The \<^verbatim>\<open>while\<close> loop of the first \<^verbatim>\<open>solve_newton\<close> (lines 792 to 798); the loop has no
  bound on its iterations.\<close>

partial_function (option) density_newton ::
  "env \<Rightarrow> fl \<Rightarrow> fl \<Rightarrow> fl \<Rightarrow> fl \<Rightarrow> (error + fl) option" where
  "density_newton E omega_ncdm T_eff m omega_check =
     (if fgt (fabs (fsub omega_ncdm omega_check)) (Fin (1 / 10 ^ 15)) then
        (case omega_of E Drhodm T_eff m of
           Inl e \<Rightarrow> Some (Inl e)
         | Inr domegadm \<Rightarrow>
             (case py_div (fsub omega_ncdm omega_check) domegadm of
                Inl e \<Rightarrow> Some (Inl e)
              | Inr q \<Rightarrow>
                  (case omega_of E Rho T_eff (fadd m q) of
                     Inl e \<Rightarrow> Some (Inl e)
                   | Inr omega_check' \<Rightarrow>
                       density_newton E omega_ncdm T_eff (fadd m q) omega_check')))
      else Some (Inr m))"

definition solve_newton_density :: "env \<Rightarrow> fl \<Rightarrow> fl \<Rightarrow> fl \<Rightarrow> (error + fl) option" where
  "solve_newton_density E omega_ncdm m T_eff =
     (case omega_of E Rho T_eff m of
        Inl e \<Rightarrow> Some (Inl e)
      | Inr omega_check \<Rightarrow> density_newton E omega_ncdm T_eff m omega_check)"

text \<open>One turn of \<^verbatim>\<open>for Omega,T in zip(Omega_ncdm,T_ncdm)\<close> (lines 801 to 807).\<close>

definition mass_of_density :: "env \<Rightarrow> pydict \<Rightarrow> pyval \<Rightarrow> scalar \<times> scalar \<Rightarrow> (error + scalar) option" where
  "mass_of_density E params h OT =
     (case OT of (Omega, T) \<Rightarrow>
        if py_eq0 Omega then Some (Inr (SNum (Fin 0)))
        else
          (case ebind (lookup params ''T_cmb'') (\<lambda>T_cmb.
                ebind (as_num T_cmb) (\<lambda>tc.
                ebind (num_scalar T) (\<lambda>t.
                ebind (num_scalar Omega) (\<lambda>om.
                ebind (square_of h) (\<lambda>h2.
                Inr (fmul tc t, fmul om h2)))))) of
             Inl e \<Rightarrow> Some (Inl e)
           | Inr (T_eff, omega_ncdm) \<Rightarrow>
               lbind (solve_newton_density E omega_ncdm (fmul omega_ncdm (Fin 93.14)) T_eff)
                 (\<lambda>m. Some (Inr (SNum m)))))"

fun masses_of_densities ::
  "env \<Rightarrow> pydict \<Rightarrow> pyval \<Rightarrow> (scalar \<times> scalar) list \<Rightarrow> (error + scalar list) option" where
  "masses_of_densities E params h [] = Some (Inr [])"
| "masses_of_densities E params h (OT # rest) =
     lbind (mass_of_density E params h OT) (\<lambda>m.
     lbind (masses_of_densities E params h rest) (\<lambda>ms.
     Some (Inr (m # ms))))"

text \<open>Lines 770 to 815: the values of \<^verbatim>\<open>m_ncdm\<close> and \<^verbatim>\<open>T_ncdm\<close> and the dictionary after the
  \<^verbatim>\<open>pop\<close>s. \<^verbatim>\<open>m_ncdm[0]\<close> of an empty list raises \<^verbatim>\<open>IndexError\<close>.\<close>

definition read_masses ::
  "env \<Rightarrow> pydict \<Rightarrow> (error + (pydict \<times> pyval \<times> pyval)) option" where
  "read_masses E params =
     (let T_ncdm = get_or params ''T_ncdm'' (Sc (SNum (Fin (TNCDM E)))) in
      if has_key params ''m_ncdm'' then
        Some (ebind (pop params ''m_ncdm'') (\<lambda>(m_ncdm, p). Inr (p, m_ncdm, T_ncdm)))
      else if has_key params ''Omega_ncdm'' then
        (case pop params ''Omega_ncdm'' of
           Inl e \<Rightarrow> Some (Inl e)
         | Inr (Omega_ncdm, p) \<Rightarrow>
            (let single_ncdm = ndim0 Omega_ncdm;
                 Omegas = (case Omega_ncdm of Sc s \<Rightarrow> [s] | Li xs \<Rightarrow> xs);
                 Ts = (case T_ncdm of Sc s \<Rightarrow> replicate (length Omegas) s | Li xs \<Rightarrow> xs)
             in
               (case lookup p ''h'' of
                  Inl e \<Rightarrow> Some (Inl e)
                | Inr h \<Rightarrow>
                    lbind (masses_of_densities E p h (zip Omegas Ts)) (\<lambda>ms.
                    if single_ncdm then
                      (case ms of [] \<Rightarrow> Some (Inl IndexError)
                       | m # rest \<Rightarrow> Some (Inr (p, Sc m, Li Ts)))
                    else Some (Inr (p, Li ms, Li Ts))))))
      else Some (Inr (params, Li [], T_ncdm)))"

text \<open>Lines 814 to 828: both values become lists of the same length; the flag
  \<^verbatim>\<open>single_ncdm\<close> records that \<^verbatim>\<open>m_ncdm\<close> was one number.\<close>

definition listify :: "pyval \<Rightarrow> pyval \<Rightarrow> error + (bool \<times> scalar list \<times> scalar list)" where
  "listify m_ncdm0 T_ncdm0 =
     (let m_ncdm1 = (if m_ncdm0 = Sc SNone then Li [] else m_ncdm0);
          single_ncdm = ndim0 m_ncdm1;
          m_ncdm2 = (case m_ncdm1 of Sc s \<Rightarrow> Li [s] | Li xs \<Rightarrow> Li xs)
      in
        ebind (make_list m_ncdm2 ''m_ncdm'') (\<lambda>m_ncdm.
        ebind (make_list (case T_ncdm0 of Sc s \<Rightarrow> Li (replicate (length m_ncdm) s)
                          | Li xs \<Rightarrow> Li xs) ''T_ncdm'') (\<lambda>T_ncdm.
        if length T_ncdm \<noteq> length m_ncdm then Inl SameLength
        else Inr (single_ncdm, m_ncdm, T_ncdm))))"

subsection \<open>\<^verbatim>\<open>compile_params\<close>: the mass hierarchy (lines 830 to 879)\<close>

definition deltam21sq :: real where
  "deltam21sq = 762 / 10 ^ 7"

definition deltam31sq_normal :: real where
  "deltam31sq_normal = 255 / 10 ^ 5"

definition deltam31sq_inverted :: real where
  "deltam31sq_inverted = - (243 / 10 ^ 5)"

definition sum3 :: "fl \<times> fl \<times> fl \<Rightarrow> fl" where
  "sum3 m = (case m of (m0, m1, m2) \<Rightarrow> py_sum [m0, m1, m2])"

text \<open>The body of the \<^verbatim>\<open>while\<close> loop of the second \<^verbatim>\<open>solve_newton\<close> (lines 850 to 853):
  the list \<^verbatim>\<open>m_ncdm\<close> of three entries after one turn. From the second turn on the
  entries are numpy floats, and in the first turn the divisors are not zero, so that
  the divisions never raise.\<close>

definition newton_step :: "fl \<Rightarrow> fl \<Rightarrow> fl \<Rightarrow> fl \<Rightarrow> fl \<times> fl \<times> fl \<Rightarrow> fl \<times> fl \<times> fl" where
  "newton_step sum_ncdm sum_check d21 d31 m =
     (case m of (m0, m1, m2) \<Rightarrow>
        let dsdm1 = fadd (fadd (Fin 1) (np_div m0 m1)) (np_div m0 m2);
            m0' = fadd m0 (np_div (fsub sum_ncdm sum_check) dsdm1)
        in (m0', fsqrt (fadd (fsquare m0') d21), fsqrt (fadd (fsquare m0') d31)))"

partial_function (option) hierarchy_newton ::
  "fl \<Rightarrow> fl \<Rightarrow> fl \<Rightarrow> fl \<times> fl \<times> fl \<Rightarrow> fl \<Rightarrow> (fl \<times> fl \<times> fl) option" where
  "hierarchy_newton sum_ncdm d21 d31 m sum_check =
     (if fgt (fabs (fsub sum_ncdm sum_check)) (Fin (1 / 10 ^ 15)) then
        hierarchy_newton sum_ncdm d21 d31 (newton_step sum_ncdm sum_check d21 d31 m)
          (sum3 (newton_step sum_ncdm sum_check d21 d31 m))
      else Some m)"

definition solve_newton :: "fl \<Rightarrow> fl \<times> fl \<times> fl \<Rightarrow> fl \<Rightarrow> fl \<Rightarrow> (fl \<times> fl \<times> fl) option" where
  "solve_newton sum_ncdm m d21 d31 = hierarchy_newton sum_ncdm d21 d31 m (sum3 m)"

definition masses_list :: "fl \<times> fl \<times> fl \<Rightarrow> scalar list" where
  "masses_list m = (case m of (m0, m1, m2) \<Rightarrow> [SNum m0, SNum m1, SNum m2])"

text \<open>Lines 857 to 877: the three masses for a hierarchy name and a summed mass.\<close>

definition split_sum :: "pyval \<Rightarrow> fl \<Rightarrow> (error + scalar list) option" where
  "split_sum neutrino_hierarchy sum_ncdm =
     (if neutrino_hierarchy = Sc (SStr ''normal'') then
        if flt (fsquare sum_ncdm) (Fin (deltam21sq + deltam31sq_normal))
        then Some (Inl NormalBelowMinimum)
        else map_option (\<lambda>m. Inr (masses_list m))
               (solve_newton sum_ncdm (Fin 0, Fin deltam21sq, Fin deltam31sq_normal)
                  (Fin deltam21sq) (Fin deltam31sq_normal))
      else if neutrino_hierarchy = Sc (SStr ''inverted'') then
        if flt (fsquare sum_ncdm)
             (Fin (- deltam31sq_inverted + deltam21sq - deltam31sq_inverted))
        then Some (Inl InvertedBelowMinimum)
        else map_option (\<lambda>m. Inr (masses_list m))
               (solve_newton sum_ncdm
                  (fsqrt (Fin (- deltam31sq_inverted)),
                   fsqrt (Fin (- deltam31sq_inverted + deltam21sq)),
                   Fin (1 / 10 ^ 5))
                  (Fin deltam21sq) (Fin deltam31sq_inverted))
      else if neutrino_hierarchy = Sc (SStr ''degenerate'') then
        Some (Inr (replicate 3 (SNum (np_div sum_ncdm (Fin 3)))))
      else Some (Inl UnknownHierarchy))"

text \<open>Lines 830 to 879. The flag \<^verbatim>\<open>single_ncdm\<close> is true only for a list of one entry.\<close>

definition apply_hierarchy ::
  "pydict \<Rightarrow> bool \<times> scalar list \<times> scalar list \<Rightarrow> (error + (pydict \<times> scalar list \<times> scalar list)) option" where
  "apply_hierarchy params cur =
     (case cur of (single_ncdm, m_ncdm, T_ncdm) \<Rightarrow>
        if has_key params ''neutrino_hierarchy'' then
          (case pop params ''neutrino_hierarchy'' of
             Inl e \<Rightarrow> Some (Inl e)
           | Inr (neutrino_hierarchy, p) \<Rightarrow>
               if neutrino_hierarchy \<noteq> Sc SNone then
                 if \<not> single_ncdm then Some (Inl HierarchyWithList)
                 else
                   (case (m_ncdm, T_ncdm) of
                      (s # ms, T # Ts) \<Rightarrow>
                        (case num_of s of
                           None \<Rightarrow> Some (Inl TypeError)
                         | Some sum_ncdm \<Rightarrow>
                             if flt sum_ncdm (Fin 0) then Some (Inl NegativeSum)
                             else lbind (split_sum neutrino_hierarchy sum_ncdm) (\<lambda>masses.
                                  Some (Inr (p, masses, replicate 3 T))))
                    | _ \<Rightarrow> Some (Inl IndexError))
               else Some (Inr (p, m_ncdm, T_ncdm)))
        else Some (Inr (params, m_ncdm, T_ncdm)))"

subsection \<open>\<^verbatim>\<open>compile_params\<close>: relativistic species (lines 881 to 906)\<close>

text \<open>Lines 883 to 886. The name \<^verbatim>\<open>Omega_ur\<close> on line 886 is bound nowhere in the
  function, so that the branch ends in a \<^verbatim>\<open>NameError\<close> once \<^verbatim>\<open>T_ur\<close> is computed.\<close>

definition step_Omega_ur :: "pydict \<Rightarrow> error + unit" where
  "step_Omega_ur params =
     (if has_key params ''Omega_ur'' then
        ebind (lookup params ''T_cmb'') (\<lambda>T_cmb.
        ebind (as_num T_cmb) (\<lambda>t. Inl (NameError ''Omega_ur'')))
      else Inr ())"

definition m_massive :: real where
  "m_massive = 17 / 10 ^ 5"

text \<open>\<^verbatim>\<open>(4./11.)**(-4./3.)\<close>\<close>

definition massive_factor :: real where
  "massive_factor = (4 / 11) powr (- (4 / 3))"

text \<open>
  The floating-point arithmetic of lines 890 to 898 is a parameter of these lines: the
  addition of the builtin \<^verbatim>\<open>sum\<close>, the difference, the product, the fourth power, and
  the floats that the expressions \<^verbatim>\<open>0.00017\<close> and \<^verbatim>\<open>(4./11.)**(-4./3.)\<close> evaluate to. So
  what is proved of these lines for every such arithmetic holds for the rounded
  arithmetic of the machine. \<open>exact_arith\<close> computes on the real numbers, without
  rounding; the rest of the model uses it.
\<close>

record arith =
  a_add :: "fl \<Rightarrow> fl \<Rightarrow> fl"
  a_sub :: "fl \<Rightarrow> fl \<Rightarrow> fl"
  a_mul :: "fl \<Rightarrow> fl \<Rightarrow> fl"
  a_pow4 :: "fl \<Rightarrow> fl"
  a_m_massive :: fl
  a_factor :: fl

definition exact_arith :: arith where
  "exact_arith =
     \<lparr>a_add = fadd, a_sub = fsub, a_mul = fmul, a_pow4 = fpow4,
      a_m_massive = Fin m_massive, a_factor = Fin massive_factor\<rparr>"

text \<open>The builtin \<^verbatim>\<open>sum\<close> in the arithmetic \<open>A\<close>.\<close>

definition sum_in :: "arith \<Rightarrow> fl list \<Rightarrow> fl" where
  "sum_in A xs = foldl (a_add A) (Fin 0) xs"

text \<open>Lines 889 to 901. A list for \<^verbatim>\<open>N_eff\<close> is broadcast by numpy when the sum is a numpy
  float, and raises when the sum is the integer \<open>0\<close> of an empty selection. The masses
  that stay are listed by their numeric value (\<^verbatim>\<open>tolist\<close>).\<close>

definition derive_N_ur_in ::
  "arith \<Rightarrow> env \<Rightarrow> pydict \<Rightarrow> scalar list \<Rightarrow> scalar list
     \<Rightarrow> error + (pydict \<times> pyval \<times> scalar list \<times> scalar list)" where
  "derive_N_ur_in A E params m_ncdm T_ncdm =
     ebind (emap num_scalar m_ncdm) (\<lambda>ms.
     let mask_m = map (\<lambda>m. fgt m (a_m_massive A)) ms;
         N_eff = get_or params ''N_eff'' (Sc (SNum (Fin (NEFF E))));
         p = AList.delete ''N_eff'' params
     in
     ebind (emap num_scalar (map snd (filter fst (zip mask_m T_ncdm)))) (\<lambda>ts.
     ebind (case N_eff of
              Sc s \<Rightarrow> num_scalar s
            | Li xs \<Rightarrow> Inl (if ts = [] then TypeError else Unmodelled)) (\<lambda>n.
     let N_ur = a_sub A n (a_mul A (sum_in A (map (a_pow4 A) ts)) (a_factor A)) in
     if flt N_ur (Fin 0) then Inl NegativeNur
     else Inr (p, Sc (SNum N_ur), map SNum (map snd (filter fst (zip mask_m ms))), T_ncdm))))"

definition N_ur_block_in ::
  "arith \<Rightarrow> env \<Rightarrow> pydict \<Rightarrow> scalar list \<Rightarrow> scalar list \<Rightarrow> error + pydict" where
  "N_ur_block_in A E params m_ncdm T_ncdm =
     (let N_ur = get_or params ''N_ur'' (Sc SNone) in
      ebind (step_Omega_ur params) (\<lambda>u.
      ebind (if N_ur = Sc SNone then derive_N_ur_in A E params m_ncdm T_ncdm
             else Inr (params, N_ur, m_ncdm, T_ncdm)) (\<lambda>(p, N, ms, Ts).
      Inr (AList.update ''T_ncdm'' (Li Ts)
            (AList.update ''m_ncdm'' (Li ms)
              (AList.update ''N_ur'' N p))))))"

text \<open>The same lines in the exact arithmetic.\<close>

definition derive_N_ur ::
  "env \<Rightarrow> pydict \<Rightarrow> scalar list \<Rightarrow> scalar list \<Rightarrow> error + (pydict \<times> pyval \<times> scalar list \<times> scalar list)" where
  "derive_N_ur E params m_ncdm T_ncdm = derive_N_ur_in exact_arith E params m_ncdm T_ncdm"

definition N_ur_block :: "env \<Rightarrow> pydict \<Rightarrow> scalar list \<Rightarrow> scalar list \<Rightarrow> error + pydict" where
  "N_ur_block E params m_ncdm T_ncdm = N_ur_block_in exact_arith E params m_ncdm T_ncdm"

subsection \<open>\<^verbatim>\<open>compile_params\<close>: output redshifts and total matter (lines 908 to 924)\<close>

definition wrap_scalar :: "string \<Rightarrow> pydict \<Rightarrow> pydict" where
  "wrap_scalar name params =
     (case map_of params name of
        Some (Sc s) \<Rightarrow> AList.update name (Li [s]) params
      | _ \<Rightarrow> params)"

text \<open>Lines 908 to 918. The \<^verbatim>\<open>append\<close> of line 918 is rendered by its effect on the
  value of the entry; its effect on the list object is the subject of \<open>append_z_pk\<close>
  below.\<close>

definition step_z_pk :: "env \<Rightarrow> pydict \<Rightarrow> pydict" where
  "step_z_pk E params =
     (let p1 = (if get_or params ''z_pk'' (Sc SNone) = Sc SNone
                then AList.update ''z_pk'' (Li (get_default_z_callable E)) params else params);
          p2 = (if get_or p1 ''modes'' (Sc SNone) = Sc SNone
                then AList.update ''modes'' (Li [SStr ''s'']) p1 else p1);
          p3 = wrap_scalar ''z_pk'' (wrap_scalar ''modes'' p2)
      in
        (case map_of p3 ''z_pk'' of
           Some (Li zs) \<Rightarrow>
             if \<not> zero_in zs then AList.update ''z_pk'' (Li (zs @ [SNum (Fin 0)])) p3 else p3
         | _ \<Rightarrow> p3))"

text \<open>\<^verbatim>\<open>BaseEngine._get_rho_ncdm(params,z=0)\<close> and \<^verbatim>\<open>BaseEngine._get_p_ncdm(params,z=0)\<close>
  with the dictionary in the place of \<^verbatim>\<open>self\<close>. With species present the sum may be a
  numpy float, whose division by zero does not raise; that case is not followed.\<close>

definition add_momentum ::
  "env \<Rightarrow> momentum \<Rightarrow> pydict \<Rightarrow> scalar \<times> scalar \<Rightarrow> fl \<Rightarrow> error + fl" where
  "add_momentum E out params mT toret =
     (case mT of (m, T) \<Rightarrow>
        ebind (lookup params ''T_cmb'') (\<lambda>T_cmb.
        ebind (as_num T_cmb) (\<lambda>tc.
        ebind (num_scalar T) (\<lambda>t.
        ebind (num_scalar m) (\<lambda>mm.
        ebind (compute_ncdm_momenta E out (fmul tc t) mm) (\<lambda>r.
        Inr (fadd toret r)))))))"

definition get_ncdm :: "env \<Rightarrow> momentum \<Rightarrow> pydict \<Rightarrow> error + fl" where
  "get_ncdm E out params =
     ebind (lookup params ''m_ncdm'') (\<lambda>mv.
     ebind (lookup params ''T_ncdm'') (\<lambda>Tv.
     ebind (make_list mv ''m_ncdm'') (\<lambda>ms.
     ebind (make_list Tv ''T_ncdm'') (\<lambda>Ts.
     ebind (efold (add_momentum E out params) (zip ms Ts) (Fin 0)) (\<lambda>toret.
     ebind (lookup params ''h'') (\<lambda>h.
     ebind (square_of h) (\<lambda>h2.
     if h2 = Fin 0 \<and> zip ms Ts \<noteq> [] then Inl Unmodelled else py_div toret h2)))))))"

definition step_Omega_m :: "env \<Rightarrow> pydict \<Rightarrow> error + pydict" where
  "step_Omega_m E params =
     (if has_key params ''Omega_m'' then
        ebind (get_ncdm E Rho params) (\<lambda>rho.
        ebind (get_ncdm E Pressure params) (\<lambda>pr.
        ebind (py_div (fsub rho (fmul (Fin 3) pr)) (Fin (rho_crit_Msunph_per_Mpcph3 E)))
          (\<lambda>nonrelativistic_ncdm.
        ebind (pop params ''Omega_m'') (\<lambda>(Omega_m, p).
        ebind (lookup p ''Omega_b'') (\<lambda>Omega_b.
        ebind (as_num Omega_m) (\<lambda>om.
        ebind (as_num Omega_b) (\<lambda>ob.
        Inr (AList.update ''Omega_cdm'' (Sc (SNum (fsub (fsub om ob) nonrelativistic_ncdm))) p))))))))
      else Inr params)"

subsection \<open>\<^verbatim>\<open>compile_params\<close>, \<^verbatim>\<open>Cosmology.__init__\<close>\<close>

text \<open>Lines 723 to 879: the dictionary and the lists \<^verbatim>\<open>m_ncdm\<close> and \<^verbatim>\<open>T_ncdm\<close> before the
  relativistic species are counted.\<close>

definition neutrino_lists ::
  "env \<Rightarrow> pydict \<Rightarrow> (error + (pydict \<times> scalar list \<times> scalar list)) option" where
  "neutrino_lists E args =
     (case normalise E args of
        Inl e \<Rightarrow> Some (Inl e)
      | Inr (p, h) \<Rightarrow>
          lbind (read_masses E p) (\<lambda>(p1, m_ncdm0, T_ncdm0).
          (case listify m_ncdm0 T_ncdm0 of
             Inl e \<Rightarrow> Some (Inl e)
           | Inr cur \<Rightarrow> apply_hierarchy p1 cur)))"

text \<open>Lines 723 to 906: the dictionary before the output redshifts are handled; and the
  whole of \<^verbatim>\<open>compile_params\<close>. The arithmetic \<open>A\<close> is that of lines 890 to 898.\<close>

definition compile_neutrinos_in :: "arith \<Rightarrow> env \<Rightarrow> pydict \<Rightarrow> (error + pydict) option" where
  "compile_neutrinos_in A E args =
     lbind (neutrino_lists E args) (\<lambda>(p, m_ncdm, T_ncdm).
     Some (N_ur_block_in A E p m_ncdm T_ncdm))"

definition compile_params_in :: "arith \<Rightarrow> env \<Rightarrow> pydict \<Rightarrow> (error + pydict) option" where
  "compile_params_in A E args =
     lbind (compile_neutrinos_in A E args) (\<lambda>p. Some (step_Omega_m E (step_z_pk E p)))"

text \<open>The same in the exact arithmetic.\<close>

definition compile_neutrinos :: "env \<Rightarrow> pydict \<Rightarrow> (error + pydict) option" where
  "compile_neutrinos E args = compile_neutrinos_in exact_arith E args"

definition compile_params :: "env \<Rightarrow> pydict \<Rightarrow> (error + pydict) option" where
  "compile_params E args = compile_params_in exact_arith E args"

text \<open>\<^verbatim>\<open>Cosmology.get_default_parameters(include_conflicts=False)\<close>\<close>

definition num :: "real \<Rightarrow> pyval" where
  "num a = Sc (SNum (Fin a))"

definition default_parameters :: "env \<Rightarrow> pydict" where
  "default_parameters E =
    [(''h'', num 0.7), (''Omega_cdm'', num 0.25), (''Omega_b'', num 0.05),
     (''Omega_k'', num 0), (''sigma8'', num 0.8), (''k_pivot'', num 0.05),
     (''n_s'', num 0.96), (''alpha_s'', num 0), (''r'', num 0), (''T_cmb'', num (TCMB E)),
     (''m_ncdm'', Sc SNone), (''neutrino_hierarchy'', Sc SNone),
     (''T_ncdm'', num (TNCDM E)), (''N_eff'', num (NEFF E)), (''tau_reio'', num 0.06),
     (''reionization_width'', num 0.5), (''A_L'', num 1), (''w0_fld'', num (- 1)),
     (''wa_fld'', num 0), (''cs2_fld'', num 1),
     (''non_linear'', Sc (SStr [])), (''modes'', Sc (SStr ''s'')),
     (''lensing'', Sc (SBool False)), (''z_pk'', Sc SNone), (''kmax_pk'', num 10),
     (''ellmax_cl'', num 2500)]"

text \<open>\<^verbatim>\<open>Cosmology.__init__\<close> up to the assignment of \<^verbatim>\<open>self._params\<close> (lines 511 and 512).\<close>

definition Cosmology_init :: "env \<Rightarrow> pydict \<Rightarrow> (error + pydict) option" where
  "Cosmology_init E params =
     (case check_params params of
        Inl e \<Rightarrow> Some (Inl e)
      | Inr u \<Rightarrow> compile_params E (merge_params (default_parameters E) params))"

subsection \<open>\<^verbatim>\<open>Cosmology.clone\<close>: dictionaries and lists as objects\<close>

text \<open>
  To follow what \<^verbatim>\<open>clone\<close> does to the objects of the instance it is called on,
  dictionaries and lists live in a store. A dictionary binds a name to a scalar or to
  the address of a list; two entries, of one dictionary or of two, may hold the same
  address.
\<close>

datatype href = HSc scalar | HRef nat

record store =
  dicts :: "nat \<Rightarrow> href dict"
  lists :: "nat \<Rightarrow> scalar list"
  fresh :: nat

fun deref :: "store \<Rightarrow> href \<Rightarrow> pyval" where
  "deref S (HSc s) = Sc s"
| "deref S (HRef a) = Li (lists S a)"

definition deref_dict :: "store \<Rightarrow> href dict \<Rightarrow> pydict" where
  "deref_dict S d = map (\<lambda>(k, v). (k, deref S v)) d"

text \<open>The addresses of the lists a dictionary refers to.\<close>

fun ref_of :: "href \<Rightarrow> nat list" where
  "ref_of (HSc s) = []"
| "ref_of (HRef a) = [a]"

definition refs :: "href dict \<Rightarrow> nat set" where
  "refs d = set (concat (map (\<lambda>(k, v). ref_of v) d))"

text \<open>\<^verbatim>\<open>d.copy()\<close>: a new dictionary with the same entries (the lists are shared).\<close>

definition dict_copy :: "store \<Rightarrow> nat \<Rightarrow> nat \<times> store" where
  "dict_copy S a = (fresh S, S\<lparr>dicts := (dicts S)(fresh S := dicts S a), fresh := Suc (fresh S)\<rparr>)"

text \<open>\<^verbatim>\<open>merge_params(args, moreargs)\<close> modifies the dictionary \<^verbatim>\<open>args\<close> in place.\<close>

definition merge_params_st :: "store \<Rightarrow> nat \<Rightarrow> href dict \<Rightarrow> store" where
  "merge_params_st S a moreargs = S\<lparr>dicts := (dicts S)(a := merge_params (dicts S a) moreargs)\<rparr>"

text \<open>
  \<^verbatim>\<open>compile_params(args)\<close> on the store. It works on a new dictionary (line 724) and
  builds new lists everywhere (\<^verbatim>\<open>list(li)\<close>, list displays and comprehensions,
  \<^verbatim>\<open>np.array\<close>, \<^verbatim>\<open>tolist\<close>) but on line 918: there \<^verbatim>\<open>params['z_pk']\<close> is the object
  bound to \<^verbatim>\<open>'z_pk'\<close> in \<^verbatim>\<open>args\<close> when that is a list, and \<^verbatim>\<open>append\<close> changes it in place.
  Line 918 is reached when lines 723 to 906 raise nothing. The returned dictionary is
  given by the values of its entries.
\<close>

definition append_z_pk :: "store \<Rightarrow> href dict \<Rightarrow> store" where
  "append_z_pk S args =
     (case map_of args ''z_pk'' of
        Some (HRef a) \<Rightarrow>
          if \<not> zero_in (lists S a)
          then S\<lparr>lists := (lists S)(a := lists S a @ [SNum (Fin 0)])\<rparr> else S
      | _ \<Rightarrow> S)"

definition compile_params_st :: "env \<Rightarrow> store \<Rightarrow> nat \<Rightarrow> (store \<times> (error + pydict)) option" where
  "compile_params_st E S a =
     (case compile_neutrinos E (deref_dict S (dicts S a)) of
        None \<Rightarrow> None
      | Some (Inl e) \<Rightarrow> Some (S, Inl e)
      | Some (Inr p) \<Rightarrow> Some (append_z_pk S (dicts S a), step_Omega_m E (step_z_pk E p)))"

text \<open>
  Lines 591 and 592 of \<^verbatim>\<open>Cosmology.clone\<close>: \<^verbatim>\<open>check_params(params)\<close> and the value that
  is assigned to \<^verbatim>\<open>new._params\<close>; \<^verbatim>\<open>self\<close> is given by the address of the dictionary
  \<^verbatim>\<open>self._params\<close>. Line 590 (\<^verbatim>\<open>new = self.copy()\<close>, a method of \<^verbatim>\<open>utils.BaseClass\<close>) and
  lines 593 to 596 (the engine of \<^verbatim>\<open>new\<close>) are not part of the definition: the result is
  the store after line 592 and what line 592 evaluates or raises, not what the whole
  call returns. What these two lines have changed in the store stays changed whatever
  the lines after them do.
\<close>

definition clone :: "env \<Rightarrow> store \<Rightarrow> nat \<Rightarrow> href dict \<Rightarrow> (store \<times> (error + pydict)) option" where
  "clone E S self params =
     (case check_params params of
        Inl e \<Rightarrow> Some (S, Inl e)
      | Inr u \<Rightarrow>
          (case dict_copy S self of
             (a, S1) \<Rightarrow> compile_params_st E (merge_params_st S1 a params) a))"

subsection \<open>Values for the examples\<close>

text \<open>
  The values of \<^verbatim>\<open>constants.TCMB\<close>, \<^verbatim>\<open>constants.TNCDM\<close> and \<^verbatim>\<open>constants.NEFF\<close> in the
  package this file belongs to; the examples below do not reach the other fields,
  which are set to \<open>1\<close>, to the list of redshift \<open>0\<close> and to \<open>NaN\<close>.
\<close>

definition example_env :: env where
  "example_env =
     \<lparr>TCMB = 2.7255, TNCDM = 0.71611, NEFF = 3.044, speed_c = 1, Stefan_Boltzmann = 1,
      rho_crit_kgph_per_mph3 = 1, rho_crit_Msunph_per_Mpcph3 = 1,
      get_default_z_callable = [SNum (Fin 0)],
      compute_ncdm_momenta = (\<lambda>out T_eff m. Inr NaN)\<rparr>"

text \<open>
  A store with one instance, whose dictionary (at address \<open>0\<close>) is the mapping that
  \<^verbatim>\<open>h=0.7, N_ur=2, m_ncdm=[0.06]\<close> compiles to; its four lists are at the addresses \<open>0\<close>
  to \<open>3\<close>.
\<close>

definition example_store :: store where
  "example_store =
     \<lparr>dicts = (\<lambda>a. [])
        (0 := [(''h'', HSc (SNum (Fin 0.7))), (''N_ur'', HSc (SNum (Fin 2))),
               (''m_ncdm'', HRef 0), (''T_ncdm'', HRef 1), (''z_pk'', HRef 2),
               (''modes'', HRef 3)]),
      lists = (\<lambda>a. [])
        (0 := [SNum (Fin 0.06)], 1 := [SNum (Fin 0.71611)], 2 := [SNum (Fin 0)],
         3 := [SStr ''s'']),
      fresh = 1\<rparr>"

section \<open>Properties\<close>

subsection \<open>The compilation in the exact arithmetic\<close>

lemma sum_in_exact: "sum_in exact_arith xs = py_sum xs"
  by (simp add: sum_in_def py_sum_def exact_arith_def)

lemma derive_N_ur_unfold:
  "derive_N_ur E params m_ncdm T_ncdm =
     ebind (emap num_scalar m_ncdm) (\<lambda>ms.
     let mask_m = map (\<lambda>m. fgt m (Fin m_massive)) ms;
         N_eff = get_or params ''N_eff'' (Sc (SNum (Fin (NEFF E))));
         p = AList.delete ''N_eff'' params
     in
     ebind (emap num_scalar (map snd (filter fst (zip mask_m T_ncdm)))) (\<lambda>ts.
     ebind (case N_eff of
              Sc s \<Rightarrow> num_scalar s
            | Li xs \<Rightarrow> Inl (if ts = [] then TypeError else Unmodelled)) (\<lambda>n.
     let N_ur = fsub n (fmul (py_sum (map fpow4 ts)) (Fin massive_factor)) in
     if flt N_ur (Fin 0) then Inl NegativeNur
     else Inr (p, Sc (SNum N_ur), map SNum (map snd (filter fst (zip mask_m ms))), T_ncdm))))"
  unfolding derive_N_ur_def derive_N_ur_in_def sum_in_exact
  by (simp add: exact_arith_def)

lemma N_ur_block_unfold:
  "N_ur_block E params m_ncdm T_ncdm =
     (let N_ur = get_or params ''N_ur'' (Sc SNone) in
      ebind (step_Omega_ur params) (\<lambda>u.
      ebind (if N_ur = Sc SNone then derive_N_ur E params m_ncdm T_ncdm
             else Inr (params, N_ur, m_ncdm, T_ncdm)) (\<lambda>(p, N, ms, Ts).
      Inr (AList.update ''T_ncdm'' (Li Ts)
            (AList.update ''m_ncdm'' (Li ms)
              (AList.update ''N_ur'' N p))))))"
  by (simp only: N_ur_block_def N_ur_block_in_def derive_N_ur_def)

lemma compile_neutrinos_unfold:
  "compile_neutrinos E args =
     lbind (neutrino_lists E args) (\<lambda>(p, m_ncdm, T_ncdm).
     Some (N_ur_block E p m_ncdm T_ncdm))"
  by (simp only: compile_neutrinos_def compile_neutrinos_in_def N_ur_block_def)

lemma compile_params_unfold:
  "compile_params E args =
     lbind (compile_neutrinos E args) (\<lambda>p. Some (step_Omega_m E (step_z_pk E p)))"
  by (simp only: compile_params_def compile_params_in_def compile_neutrinos_def)

subsection \<open>Conflict detection\<close>

lemma first_group_mem: "first_group name gs \<noteq> [] \<Longrightarrow> name \<in> set (first_group name gs)"
  by (induction gs) (auto split: if_splits)

lemma find_conflicts_mem: "find_conflicts name \<noteq> [] \<Longrightarrow> name \<in> set (find_conflicts name)"
  unfolding find_conflicts_def by (rule first_group_mem)

lemma raise_first_filter:
  "raise_first ps =
     (case filter (\<lambda>p. snd p \<noteq> []) ps of
        [] \<Rightarrow> Inr ()
      | (name, c) # rest \<Rightarrow> Inl (Conflict (name # c)))"
  by (induction ps) auto

lemma check_params_eq:
  "check_params args =
     (case filter (\<lambda>n. conf_of args n \<noteq> []) (map fst args) of
        [] \<Rightarrow> Inr ()
      | name # rest \<Rightarrow> Inl (Conflict (name # conf_of args name)))"
proof -
  have "filter (\<lambda>p. snd p \<noteq> []) (map (\<lambda>name. (name, conf_of args name)) ns)
      = map (\<lambda>name. (name, conf_of args name)) (filter (\<lambda>n. conf_of args n \<noteq> []) ns)" for ns
    by (induction ns) auto
  then show ?thesis
    unfolding check_params_def raise_first_filter
    by (cases "filter (\<lambda>n. conf_of args n \<noteq> []) (map fst args)") (simp_all del: map_map)
qed

lemma conf_of_set:
  "set (conf_of args name) = {n. has_key args n} \<inter> set (find_conflicts name) - {name}"
  by (auto simp: conf_of_def)

text \<open>
  C6, as the code has it. When two names of one conflict group are present,
  \<^verbatim>\<open>check_params\<close> raises the conflict error, so that \<^verbatim>\<open>Cosmology.__init__\<close> produces no
  mapping. The error is raised for the first name of the mapping, in its order, that
  has a conflicting name present, and its message lists that name and the present
  names of its group: exactly the present names of that one group, at least two.
\<close>

theorem check_params_conflict:
  assumes "has_key args name" and "has_key args eq"
    and "eq \<in> set (find_conflicts name)" and "eq \<noteq> name"
  shows "\<exists>first rest. filter (\<lambda>n. conf_of args n \<noteq> []) (map fst args) = first # rest
           \<and> check_params args = Inl (Conflict (first # conf_of args first))
           \<and> set (first # conf_of args first) = {n. has_key args n} \<inter> set (find_conflicts first)
           \<and> 2 \<le> length (first # conf_of args first)
           \<and> Cosmology_init E args = Some (Inl (Conflict (first # conf_of args first)))"
proof -
  have "eq \<in> set (conf_of args name)"
    using assms by (simp add: conf_of_def)
  then have "conf_of args name \<noteq> []" by auto
  with assms(1) have "name \<in> set (filter (\<lambda>n. conf_of args n \<noteq> []) (map fst args))"
    by (simp add: has_key_def)
  then obtain first rest where fr: "filter (\<lambda>n. conf_of args n \<noteq> []) (map fst args) = first # rest"
    by (cases "filter (\<lambda>n. conf_of args n \<noteq> []) (map fst args)") auto
  then have "first \<in> set (filter (\<lambda>n. conf_of args n \<noteq> []) (map fst args))" by simp
  then have hk: "has_key args first" and ne: "conf_of args first \<noteq> []"
    by (auto simp: has_key_def)
  from ne have "find_conflicts first \<noteq> []" by (auto simp: conf_of_def)
  then have mem: "first \<in> set (find_conflicts first)" by (rule find_conflicts_mem)
  have cp: "check_params args = Inl (Conflict (first # conf_of args first))"
    by (simp add: check_params_eq fr)
  have st: "set (first # conf_of args first) = {n. has_key args n} \<inter> set (find_conflicts first)"
    using hk mem by (auto simp: conf_of_set)
  have len: "2 \<le> length (first # conf_of args first)"
    using ne by (cases "conf_of args first") auto
  show ?thesis using fr cp st len by (simp add: Cosmology_init_def)
qed

text \<open>The instance of \<open>check_params_conflict\<close> for \<^verbatim>\<open>h=0.7, H0=70\<close>.\<close>

theorem check_params_conflict_witness:
  "\<exists>first rest.
     filter (\<lambda>n. conf_of [(''h'', num 0.7), (''H0'', num 70)] n \<noteq> [])
       (map fst [(''h'', num 0.7), (''H0'', num 70)]) = first # rest
     \<and> check_params [(''h'', num 0.7), (''H0'', num 70)]
         = Inl (Conflict (first # conf_of [(''h'', num 0.7), (''H0'', num 70)] first))
     \<and> set (first # conf_of [(''h'', num 0.7), (''H0'', num 70)] first)
         = {n. has_key [(''h'', num 0.7), (''H0'', num 70)] n} \<inter> set (find_conflicts first)
     \<and> 2 \<le> length (first # conf_of [(''h'', num 0.7), (''H0'', num 70)] first)
     \<and> Cosmology_init example_env [(''h'', num 0.7), (''H0'', num 70)]
         = Some (Inl (Conflict (first # conf_of [(''h'', num 0.7), (''H0'', num 70)] first)))"
  by (rule check_params_conflict[of _ "''h''" "''H0''"])
     (simp_all add: has_key_def find_conflicts_def conflicts_def)

text \<open>
  With \<^verbatim>\<open>h\<close>, \<^verbatim>\<open>H0\<close>, \<^verbatim>\<open>Omega_b\<close> and \<^verbatim>\<open>omega_b\<close> all present, the message names \<^verbatim>\<open>h\<close> and
  \<^verbatim>\<open>H0\<close> only: \<^verbatim>\<open>omega_b\<close>, which conflicts with \<^verbatim>\<open>Omega_b\<close>, is not in it.
\<close>

theorem check_params_counterexample:
  "check_params
     [(''h'', num 0.7), (''H0'', num 70), (''Omega_b'', num 0.05), (''omega_b'', num 0.02)]
     = Inl (Conflict [''h'', ''H0''])
   \<and> ''omega_b'' \<in> set (find_conflicts ''Omega_b'')
   \<and> ''omega_b'' \<notin> set [''h'', ''H0'']"
  by (simp add: check_params_def conf_of_def find_conflicts_def conflicts_def has_key_def)

subsection \<open>Merging parameter sets\<close>

lemmas dict_defs = has_key_def lookup_def pop_def get_or_def ebind_def lbind_def

lemmas compile_defs = compile_params_unfold compile_neutrinos_unfold neutrino_lists_def normalise_def step_H0_def
  step_ln_A_s_def step_Omega_g_def read_masses_def listify_def apply_hierarchy_def
  N_ur_block_unfold step_Omega_ur_def derive_N_ur_unfold step_z_pk_def step_Omega_m_def
  wrap_scalar_def set_alias_def aliases_def step_omega_def num_def num_scalar_def
  py_sum_def fsub_def zero_in_def

lemma fold_delete_filter:
  "fold AList.delete ks d = filter (\<lambda>(k, v). k \<notin> set ks) d"
proof (induction ks arbitrary: d)
  case Nil
  show ?case by simp
next
  case (Cons a ks)
  have "filter (\<lambda>(k, v). k \<notin> set ks) (filter (\<lambda>(k, v). a \<noteq> k) d)
      = filter (\<lambda>(k, v). k \<notin> set (a # ks)) d"
    by (induction d) auto
  with Cons show ?case by (simp add: AList.delete_eq)
qed

lemma fold_pop_conflicts_filter:
  "fold pop_conflicts ns d = filter (\<lambda>(k, v). k \<notin> (\<Union>n \<in> set ns. set (find_conflicts n))) d"
proof (induction ns arbitrary: d)
  case Nil
  show ?case by simp
next
  case (Cons a ns)
  have "filter (\<lambda>(k, v). k \<notin> (\<Union>n \<in> set ns. set (find_conflicts n)))
          (filter (\<lambda>(k, v). k \<notin> set (find_conflicts a)) d)
      = filter (\<lambda>(k, v). k \<notin> (\<Union>n \<in> set (a # ns). set (find_conflicts n))) d"
    by (induction d) auto
  with Cons show ?case by (simp add: pop_conflicts_def fold_delete_filter)
qed

lemma map_of_dropped:
  "map_of (filter (\<lambda>(k, v). k \<notin> D) d) k = (if k \<in> D then None else map_of d k)"
  by (induction d) auto

lemma map_of_dict_update:
  "distinct (map fst moreargs) \<Longrightarrow>
   map_of (dict_update d moreargs) k
     = (case map_of moreargs k of Some v \<Rightarrow> Some v | None \<Rightarrow> map_of d k)"
  unfolding dict_update_def
proof (induction moreargs arbitrary: d)
  case Nil
  then show ?case by simp
next
  case (Cons a moreargs)
  obtain k' v' where a: "a = (k', v')" by (cases a)
  from Cons.prems a have "map_of moreargs k' = None"
    by (simp add: map_of_eq_None_iff)
  with Cons a show ?case
    by (simp add: update_conv' split: option.splits)
qed

lemma merge_example:
  "merge_params [(''H0'', num 70)] [(''h'', num 0.72)] = [(''h'', num 0.72)]"
  by (simp add: merge_params_def dict_update_def pop_conflicts_def find_conflicts_def
      conflicts_def)

lemma compile_example:
  "0 \<le> NEFF E \<Longrightarrow>
   \<exists>out. compile_params E [(''h'', num 0.72)] = Some (Inr out)
     \<and> map_of out ''h'' = Some (num 0.72) \<and> map_of out ''H0'' = None"
  by (cases "list_ex py_eq0 (get_default_z_callable E)")
     (simp_all add: compile_defs dict_defs Let_def)

text \<open>
  C5. \<^verbatim>\<open>merge_params\<close> is the override applied to the base from which every name of
  the conflict group of a name of the override has been removed; so a name of the
  override has the override's value, a name of such a group that the override does
  not give is absent, and any other name has the base's value. The base \<^verbatim>\<open>H0=70\<close>
  merged with the override \<^verbatim>\<open>h=0.72\<close> compiles to \<^verbatim>\<open>h = 0.72\<close> with no entry \<^verbatim>\<open>H0\<close>
  (the default \<^verbatim>\<open>N_eff\<close> of the constants is taken to be non-negative, as compilation
  fails otherwise).
\<close>

theorem merge_params_override:
  assumes "distinct (map fst moreargs)" and "0 \<le> NEFF E"
  shows "merge_params args moreargs
           = dict_update
               (filter (\<lambda>(k, v). k \<notin> (\<Union>n \<in> set (map fst moreargs). set (find_conflicts n))) args)
               moreargs
         \<and> map_of (merge_params args moreargs) k
           = (case map_of moreargs k of
                Some v \<Rightarrow> Some v
              | None \<Rightarrow>
                  if k \<in> (\<Union>n \<in> set (map fst moreargs). set (find_conflicts n)) then None
                  else map_of args k)
         \<and> (\<exists>out. compile_params E (merge_params [(''H0'', num 70)] [(''h'', num 0.72)])
                     = Some (Inr out)
                \<and> map_of out ''h'' = Some (num 0.72) \<and> map_of out ''H0'' = None)"
proof -
  have eq: "merge_params args moreargs
           = dict_update
               (filter (\<lambda>(k, v). k \<notin> (\<Union>n \<in> set (map fst moreargs). set (find_conflicts n))) args)
               moreargs"
    by (simp only: merge_params_def fold_pop_conflicts_filter)
  have look: "map_of (merge_params args moreargs) k
           = (case map_of moreargs k of
                Some v \<Rightarrow> Some v
              | None \<Rightarrow>
                  if k \<in> (\<Union>n \<in> set (map fst moreargs). set (find_conflicts n)) then None
                  else map_of args k)"
    unfolding eq using assms(1) by (simp only: map_of_dict_update map_of_dropped)
  from eq look compile_example[OF assms(2)] show ?thesis
    by (simp only: merge_example)
qed

text \<open>The instance of \<open>merge_params_override\<close> for the base \<^verbatim>\<open>H0=70\<close>, the override
  \<^verbatim>\<open>h=0.72\<close> and the name \<^verbatim>\<open>H0\<close>.\<close>

theorem merge_params_override_witness:
  "map_of (merge_params [(''H0'', num 70)] [(''h'', num 0.72)]) ''H0'' = None
   \<and> (\<exists>out. compile_params example_env (merge_params [(''H0'', num 70)] [(''h'', num 0.72)])
               = Some (Inr out)
          \<and> map_of out ''h'' = Some (num 0.72) \<and> map_of out ''H0'' = None)"
proof -
  have d: "distinct (map fst [(''h'', num 0.72)])" by simp
  have n: "0 \<le> NEFF example_env" by (simp add: example_env_def)
  note inst = merge_params_override[OF d n, of "[(''H0'', num 70)]" "''H0''", THEN conjunct2]
  from inst have gone: "map_of (merge_params [(''H0'', num 70)] [(''h'', num 0.72)]) ''H0'' = None"
    by (simp add: find_conflicts_def conflicts_def)
  from inst gone show ?thesis by blast
qed

subsection \<open>Output redshifts\<close>

lemma zero_in_append: "zero_in (zs @ [SNum (Fin 0)])"
  by (simp add: zero_in_def)

lemma map_of_wrap_other:
  "k \<noteq> name \<Longrightarrow> map_of (wrap_scalar name p) k = map_of p k"
  by (simp add: wrap_scalar_def update_conv' split: option.splits pyval.splits)

lemma map_of_wrap_same:
  "map_of (wrap_scalar name p) name
     = (case map_of p name of Some (Sc s) \<Rightarrow> Some (Li [s]) | r \<Rightarrow> r)"
  by (simp add: wrap_scalar_def update_conv' split: option.splits pyval.splits)

lemma step_z_pk_has_zero:
  "\<exists>zs. map_of (step_z_pk E p) ''z_pk'' = Some (Li zs) \<and> zero_in zs"
proof -
  define p1 where "p1 = (if get_or p ''z_pk'' (Sc SNone) = Sc SNone
                then AList.update ''z_pk'' (Li (get_default_z_callable E)) p else p)"
  define p2 where "p2 = (if get_or p1 ''modes'' (Sc SNone) = Sc SNone
                then AList.update ''modes'' (Li [SStr ''s'']) p1 else p1)"
  define p3 where "p3 = wrap_scalar ''z_pk'' (wrap_scalar ''modes'' p2)"
  have s: "step_z_pk E p =
        (case map_of p3 ''z_pk'' of
           Some (Li zs) \<Rightarrow>
             if \<not> zero_in zs then AList.update ''z_pk'' (Li (zs @ [SNum (Fin 0)])) p3 else p3
         | _ \<Rightarrow> p3)"
    by (simp only: step_z_pk_def p1_def p2_def p3_def Let_def)
  have "\<exists>v. map_of p1 ''z_pk'' = Some v"
    by (auto simp: p1_def get_or_def update_conv' split: option.splits)
  then have "\<exists>v. map_of p2 ''z_pk'' = Some v"
    by (auto simp: p2_def update_conv')
  then obtain v where v: "map_of p2 ''z_pk'' = Some v" by blast
  have "\<exists>zs. map_of p3 ''z_pk'' = Some (Li zs)"
    by (cases v) (simp_all add: p3_def map_of_wrap_same map_of_wrap_other v)
  then obtain zs where zs: "map_of p3 ''z_pk'' = Some (Li zs)" by blast
  show ?thesis
    by (cases "zero_in zs") (simp_all add: s zs update_conv' zero_in_append)
qed

lemma step_Omega_m_keeps:
  assumes "step_Omega_m E q = Inr out" and "k \<noteq> ''Omega_m''" and "k \<noteq> ''Omega_cdm''"
  shows "map_of out k = map_of q k"
  using assms
  by (auto simp: step_Omega_m_def ebind_def pop_def update_conv' delete_conv'
      split: if_splits sum.splits option.splits prod.splits)

text \<open>
  C9. Whenever \<^verbatim>\<open>compile_params\<close> returns, the returned mapping has an entry \<^verbatim>\<open>z_pk\<close>, it is
  a list, and \<^verbatim>\<open>0 in z_pk\<close> holds, whatever the input gave for \<^verbatim>\<open>z_pk\<close>.
\<close>

theorem compile_params_z_pk:
  assumes "compile_params E args = Some (Inr out)"
  shows "\<exists>zs. map_of out ''z_pk'' = Some (Li zs) \<and> zero_in zs"
proof -
  from assms obtain p where out: "step_Omega_m E (step_z_pk E p) = Inr out"
    by (auto simp: compile_params_unfold lbind_def split: option.splits sum.splits)
  have "map_of out ''z_pk'' = map_of (step_z_pk E p) ''z_pk''"
    by (rule step_Omega_m_keeps[OF out]) simp_all
  with step_z_pk_has_zero[of E p] show ?thesis by simp
qed

lemma compile_z_pk_example:
  "compile_params example_env [(''h'', num 0.7), (''z_pk'', Li [SNum (Fin 1)])]
     = Some (Inr [(''h'', num 0.7), (''z_pk'', Li [SNum (Fin 1), SNum (Fin 0)]),
                  (''N_ur'', num 3.044), (''m_ncdm'', Li []), (''T_ncdm'', Li []),
                  (''modes'', Li [SStr ''s''])])"
  by (simp add: compile_defs dict_defs Let_def example_env_def)

text \<open>The instance of \<open>compile_params_z_pk\<close> for the input \<^verbatim>\<open>h=0.7, z_pk=[1.0]\<close>.\<close>

theorem compile_params_z_pk_witness:
  "compile_params example_env [(''h'', num 0.7), (''z_pk'', Li [SNum (Fin 1)])]
     = Some (Inr [(''h'', num 0.7), (''z_pk'', Li [SNum (Fin 1), SNum (Fin 0)]),
                  (''N_ur'', num 3.044), (''m_ncdm'', Li []), (''T_ncdm'', Li []),
                  (''modes'', Li [SStr ''s''])])
   \<and> (\<exists>zs. map_of [(''h'', num 0.7), (''z_pk'', Li [SNum (Fin 1), SNum (Fin 0)]),
                    (''N_ur'', num 3.044), (''m_ncdm'', Li []), (''T_ncdm'', Li []),
                    (''modes'', Li [SStr ''s''])] ''z_pk'' = Some (Li zs) \<and> zero_in zs)"
  using compile_params_z_pk[OF compile_z_pk_example] compile_z_pk_example by blast

subsection \<open>Names that the first part of the compilation leaves alone\<close>

lemma take_length: "take n xs = ys \<Longrightarrow> length ys = n \<Longrightarrow> n \<le> length xs"
  by auto

lemma length_replace_omega: "length (replace_omega s) = length s"
proof (induction s rule: replace_omega.induct)
  case 1
  show ?case by simp
next
  case (2 x xs)
  show ?case
  proof (cases "take 5 (x # xs) = ''omega''")
    case True
    then have "5 \<le> length (x # xs)" by (rule take_length) simp
    with 2 True show ?thesis by simp
  next
    case False
    with 2 show ?thesis by auto
  qed
qed

lemma replace_omega_short: "length s < 5 \<Longrightarrow> replace_omega s = s"
proof (induction s rule: replace_omega.induct)
  case 1
  show ?case by simp
next
  case (2 x xs)
  have "take 5 (x # xs) \<noteq> ''omega''"
  proof
    assume "take 5 (x # xs) = ''omega''"
    then have "5 \<le> length (x # xs)" by (rule take_length) simp
    with 2 show False by simp
  qed
  with 2 show ?case by auto
qed

lemma omega_split: "take 5 name = ''omega'' \<Longrightarrow> name = ''omega'' @ drop 5 name"
  by (metis append_take_drop_id)

lemma replace_omega_head: "replace_omega (''omega'' @ r) = ''Omega'' @ replace_omega r"
  by simp

lemma replace_omega_capital:
  assumes "take 5 name = ''omega''"
  shows "take 5 (replace_omega name) = ''Omega''"
proof -
  from assms have "name = ''omega'' @ drop 5 name" by (rule omega_split)
  then have "replace_omega name = ''Omega'' @ replace_omega (drop 5 name)"
    using replace_omega_head by metis
  then show ?thesis by simp
qed

lemma replace_omega_Omega_ur:
  assumes "take 5 name = ''omega''" and "replace_omega name = ''Omega_ur''"
  shows "name = ''omega_ur''"
proof -
  from assms(1) have n: "name = ''omega'' @ drop 5 name" by (rule omega_split)
  then have "replace_omega name = ''Omega'' @ replace_omega (drop 5 name)"
    using replace_omega_head by metis
  with assms(2) have r: "replace_omega (drop 5 name) = ''_ur''" by simp
  then have "length (drop 5 name) = 3"
    using length_replace_omega[of "drop 5 name"] by simp
  then have "replace_omega (drop 5 name) = drop 5 name"
    by (intro replace_omega_short) simp
  with r have "drop 5 name = ''_ur''" by simp
  with n show ?thesis by simp
qed

lemma efold_invariant:
  assumes "efold f xs s = Inr s'" and "P s"
    and "\<And>x t t'. x \<in> set xs \<Longrightarrow> P t \<Longrightarrow> f x t = Inr t' \<Longrightarrow> P t'"
  shows "P s'"
  using assms
proof (induction xs arbitrary: s)
  case Nil
  then show ?case by simp
next
  case (Cons x xs)
  from Cons.prems(1) obtain t where t: "f x s = Inr t" and rest: "efold f xs t = Inr s'"
    by (auto simp: ebind_def split: sum.splits)
  have "P t" using Cons.prems(2,3) t by auto
  with Cons.IH[OF rest] Cons.prems(3) show ?case by auto
qed

lemma step_H0_keeps:
  "step_H0 p = Inr p' \<Longrightarrow> k \<noteq> ''h'' \<Longrightarrow> k \<noteq> ''H0'' \<Longrightarrow> map_of p' k = map_of p k"
  by (auto simp: step_H0_def ebind_def pop_def update_conv' delete_conv'
      split: if_splits sum.splits option.splits)

lemma step_omega_keeps:
  "step_omega h name p = Inr p' \<Longrightarrow> k \<noteq> name \<Longrightarrow>
   (take 5 name = ''omega'' \<Longrightarrow> replace_omega name \<noteq> k) \<Longrightarrow> map_of p' k = map_of p k"
  by (auto simp: step_omega_def ebind_def pop_def update_conv' delete_conv'
      split: if_splits sum.splits option.splits pyval.splits)

lemma set_alias_keeps:
  "set_alias args (pn, an) p = Inr p' \<Longrightarrow> k \<noteq> an \<Longrightarrow>
   (has_key args an \<Longrightarrow> pn \<noteq> k) \<Longrightarrow> map_of p' k = map_of p k"
  by (auto simp: set_alias_def ebind_def pop_def update_conv' delete_conv'
      split: if_splits sum.splits option.splits)

lemma step_ln_A_s_keeps:
  "step_ln_A_s p = Inr p' \<Longrightarrow> k \<noteq> ''A_s'' \<Longrightarrow> k \<noteq> ''ln10^{10}A_s'' \<Longrightarrow>
   map_of p' k = map_of p k"
  by (auto simp: step_ln_A_s_def ebind_def pop_def update_conv' delete_conv'
      split: if_splits sum.splits option.splits pyval.splits)

lemma step_Omega_g_keeps:
  "step_Omega_g E h p = Inr p' \<Longrightarrow> k \<noteq> ''T_cmb'' \<Longrightarrow> k \<noteq> ''Omega_g'' \<Longrightarrow>
   map_of p' k = map_of p k"
  by (auto simp: step_Omega_g_def ebind_def pop_def update_conv' delete_conv'
      split: if_splits sum.splits option.splits)

lemma read_masses_keeps:
  "read_masses E p = Some (Inr (p', m, T)) \<Longrightarrow> k \<noteq> ''m_ncdm'' \<Longrightarrow> k \<noteq> ''Omega_ncdm'' \<Longrightarrow>
   map_of p' k = map_of p k"
  by (auto simp: read_masses_def ebind_def lbind_def pop_def delete_conv' Let_def
      split: if_splits sum.splits option.splits list.splits)

lemma apply_hierarchy_keeps:
  "apply_hierarchy p cur = Some (Inr (p', m, T)) \<Longrightarrow> k \<noteq> ''neutrino_hierarchy'' \<Longrightarrow>
   map_of p' k = map_of p k"
  by (auto simp: apply_hierarchy_def lbind_def pop_def delete_conv'
      split: if_splits sum.splits option.splits list.splits prod.splits)

text \<open>A name that is in no alias pair, does not begin with \<^verbatim>\<open>omega\<close> and is not the
  capitalised form of a name of \<^verbatim>\<open>args\<close> keeps its entry up to line 879.\<close>

lemma neutrino_lists_keeps:
  assumes run: "neutrino_lists E args = Some (Inr (p', m, T))"
    and k: "k \<notin> {''h'', ''H0'', ''A_s'', ''ln10^{10}A_s'', ''T_cmb'', ''Omega_g'', ''m_ncdm'',
               ''Omega_ncdm'', ''neutrino_hierarchy''}"
    and no_omega: "take 5 k \<noteq> ''omega''"
    and capital: "\<And>n. has_key args n \<Longrightarrow> take 5 n = ''omega'' \<Longrightarrow> replace_omega n \<noteq> k"
    and al: "\<And>pn an. (pn, an) \<in> set aliases \<Longrightarrow> k \<noteq> an \<and> (has_key args an \<longrightarrow> pn \<noteq> k)"
  shows "map_of p' k = map_of args k"
proof -
  from run obtain p h p1 m0 T0 cur where
    norm: "normalise E args = Inr (p, h)"
    and rd: "read_masses E p = Some (Inr (p1, m0, T0))"
    and hi: "apply_hierarchy p1 cur = Some (Inr (p', m, T))"
    by (auto simp: neutrino_lists_def lbind_def split: sum.splits option.splits prod.splits)
  from norm obtain a b c d where
    s1: "step_H0 args = Inr a"
    and s2: "efold (step_omega h) (map fst args) a = Inr b"
    and s3: "efold (set_alias args) aliases b = Inr c"
    and s4: "step_ln_A_s c = Inr d"
    and s5: "step_Omega_g E h d = Inr p"
    by (auto simp: normalise_def ebind_def split: sum.splits)
  have 1: "map_of a k = map_of args k"
    using step_H0_keeps[OF s1] k by simp
  have 2: "map_of b k = map_of args k"
  proof (rule efold_invariant[OF s2, where P = "\<lambda>t. map_of t k = map_of args k"])
    show "map_of a k = map_of args k" by (rule 1)
  next
    fix x t t'
    assume x: "x \<in> set (map fst args)" and t: "map_of t k = map_of args k"
      and st: "step_omega h x t = Inr t'"
    have "k \<noteq> x \<or> take 5 x \<noteq> ''omega''" using no_omega by auto
    then have "map_of t' k = map_of t k"
    proof
      assume "k \<noteq> x"
      with st show ?thesis
        using capital[of x] x by (intro step_omega_keeps[OF st]) (auto simp: has_key_def)
    next
      assume "take 5 x \<noteq> ''omega''"
      with st show ?thesis by (simp add: step_omega_def)
    qed
    with t show "map_of t' k = map_of args k" by simp
  qed
  have 3: "map_of c k = map_of args k"
  proof (rule efold_invariant[OF s3, where P = "\<lambda>t. map_of t k = map_of args k"])
    show "map_of b k = map_of args k" by (rule 2)
  next
    fix x t t'
    assume x: "x \<in> set aliases" and t: "map_of t k = map_of args k"
      and st: "set_alias args x t = Inr t'"
    obtain pn an where pa: "x = (pn, an)" by (cases x)
    have "map_of t' k = map_of t k"
      using al[of pn an] x st pa by (intro set_alias_keeps[of args pn an t t' k]) auto
    with t show "map_of t' k = map_of args k" by simp
  qed
  have 4: "map_of d k = map_of args k"
    using step_ln_A_s_keeps[OF s4] k 3 by simp
  have 5: "map_of p k = map_of args k"
    using step_Omega_g_keeps[OF s5] k 4 by simp
  have 6: "map_of p1 k = map_of args k"
    using read_masses_keeps[OF rd] k 5 by simp
  show ?thesis
    using apply_hierarchy_keeps[OF hi] k 6 by simp
qed

lemma neutrino_lists_N_ur:
  assumes "neutrino_lists E args = Some (Inr (p', m, T))"
  shows "map_of p' ''N_ur'' = map_of args ''N_ur''"
proof (rule neutrino_lists_keeps[OF assms])
  fix n assume "take 5 n = ''omega''"
  then have "take 5 (replace_omega n) = ''Omega''" by (rule replace_omega_capital)
  then show "replace_omega n \<noteq> ''N_ur''" by auto
qed (auto simp: aliases_def)

lemma neutrino_lists_N_eff:
  assumes "neutrino_lists E args = Some (Inr (p', m, T))"
  shows "map_of p' ''N_eff'' = map_of args ''N_eff''"
proof (rule neutrino_lists_keeps[OF assms])
  fix n assume "take 5 n = ''omega''"
  then have "take 5 (replace_omega n) = ''Omega''" by (rule replace_omega_capital)
  then show "replace_omega n \<noteq> ''N_eff''" by auto
qed (auto simp: aliases_def)

lemma neutrino_lists_Omega_ur:
  assumes run: "neutrino_lists E args = Some (Inr (p', m, T))"
    and "\<not> has_key args ''omega_ur''" and "\<not> has_key args ''Omega0_ur''"
  shows "map_of p' ''Omega_ur'' = map_of args ''Omega_ur''"
proof (rule neutrino_lists_keeps[OF run])
  fix n assume "has_key args n" and "take 5 n = ''omega''"
  with assms(2) replace_omega_Omega_ur[of n] show "replace_omega n \<noteq> ''Omega_ur''" by auto
next
  fix pn an assume "(pn, an) \<in> set aliases"
  with assms(3) show "''Omega_ur'' \<noteq> an \<and> (has_key args an \<longrightarrow> pn \<noteq> ''Omega_ur'')"
    by (auto simp: aliases_def)
qed auto

subsection \<open>Relativistic species\<close>

lemma massive_factor_pos: "0 < massive_factor"
  by (simp add: massive_factor_def)

lemma foldl_fadd_Fin: "foldl fadd (Fin a) (map Fin xs) = Fin (a + sum_list xs)"
  by (induction xs arbitrary: a) (simp_all add: add.assoc)

lemma py_sum_Fin: "py_sum (map Fin xs) = Fin (sum_list xs)"
  by (simp add: py_sum_def foldl_fadd_Fin)

lemma fpow4_Fin: "fpow4 (Fin t) = Fin (t ^ 4)"
  by (simp add: fpow4_def fsquare_def power4_eq_xxxx mult.assoc)

lemma emap_num_Fin: "emap num_scalar (map (SNum \<circ> Fin) xs) = Inr (map Fin xs)"
  by (induction xs) (simp_all add: num_scalar_def ebind_def)

lemma fgt_Fin: "fgt (Fin a) (Fin b) = (b < a)"
  by (simp add: fgt_def)
lemma massive_factor_le: "massive_factor \<le> 8"
proof -
  have "massive_factor = inverse ((4 / 11) powr (4 / 3))"
    by (simp add: massive_factor_def powr_minus)
  also have "\<dots> = (11 / 4) powr (4 / 3)"
    using inverse_powr[of "4 / 11 :: real" "4 / 3"] by (simp add: field_simps)
  also have "\<dots> \<le> (11 / 4) powr 2"
    by (rule powr_mono) simp_all
  also have "\<dots> = (11 / 4) ^ 2"
    by (rule powr_numeral) simp
  also have "\<dots> \<le> (8 :: real)"
    by (simp add: power2_eq_square)
  finally show ?thesis .
qed
lemma select_massive:
  "map snd (filter fst (zip (map (\<lambda>m. fgt m (Fin b)) (map Fin ms)) ys))
     = map snd (filter (\<lambda>(m, y). b < m) (zip ms ys))"
proof (induction ms arbitrary: ys)
  case Nil
  show ?case by simp
next
  case (Cons m ms)
  then show ?case by (cases ys) (simp_all add: fgt_Fin)
qed

lemma select_masses:
  "map snd (filter fst (zip (map (\<lambda>m. fgt m (Fin b)) (map Fin ms)) (map Fin ms)))
     = map Fin (filter (\<lambda>m. b < m) ms)"
  by (induction ms) (simp_all add: fgt_Fin)

lemma step_z_pk_keeps:
  assumes "k \<noteq> ''z_pk''" and "k \<noteq> ''modes''"
  shows "map_of (step_z_pk E p) k = map_of p k"
proof -
  define p1 where "p1 = (if get_or p ''z_pk'' (Sc SNone) = Sc SNone
                then AList.update ''z_pk'' (Li (get_default_z_callable E)) p else p)"
  define p2 where "p2 = (if get_or p1 ''modes'' (Sc SNone) = Sc SNone
                then AList.update ''modes'' (Li [SStr ''s'']) p1 else p1)"
  define p3 where "p3 = wrap_scalar ''z_pk'' (wrap_scalar ''modes'' p2)"
  have s: "step_z_pk E p =
        (case map_of p3 ''z_pk'' of
           Some (Li zs) \<Rightarrow>
             if \<not> zero_in zs then AList.update ''z_pk'' (Li (zs @ [SNum (Fin 0)])) p3 else p3
         | _ \<Rightarrow> p3)"
    by (simp only: step_z_pk_def p1_def p2_def p3_def Let_def)
  have 1: "map_of p1 k = map_of p k"
    using assms by (simp add: p1_def update_conv')
  have 2: "map_of p2 k = map_of p k"
    using assms 1 by (simp add: p2_def update_conv')
  have 3: "map_of p3 k = map_of p k"
    using assms 2 by (simp add: p3_def map_of_wrap_other)
  have "map_of (step_z_pk E p) k = map_of p3 k"
    unfolding s using assms
    by (cases "map_of p3 ''z_pk''") (auto simp: update_conv' split: pyval.splits)
  with 3 show ?thesis by simp
qed
lemma selected_temperatures:
  "map snd (filter fst (zip (map (\<lambda>m. fgt m (Fin b)) (map Fin ms)) (map (SNum \<circ> Fin) ts)))
     = map (SNum \<circ> Fin) (map snd (filter (\<lambda>(m, t). b < m) (zip ms ts)))"
proof (induction ms arbitrary: ts)
  case Nil
  show ?case by simp
next
  case (Cons m ms)
  then show ?case by (cases ts) (simp_all add: fgt_Fin)
qed

lemma pow4_snd: "map (\<lambda>t. t ^ 4) (map snd xs) = map (\<lambda>(m, t). t ^ 4) xs"
  by (induction xs) auto

lemma sum_selected:
  "py_sum (map fpow4 (map Fin (map snd xs))) = Fin (sum_list (map (\<lambda>(m, t). t ^ 4) xs))"
proof -
  have "map fpow4 (map Fin (map snd xs)) = map Fin (map (\<lambda>t. t ^ 4) (map snd xs))"
    by (simp add: fpow4_Fin)
  then show ?thesis by (simp only: py_sum_Fin pow4_snd)
qed

text \<open>Lines 889 to 901 on masses and temperature ratios that are finite numbers.\<close>

lemma derive_N_ur_Fin:
  assumes "get_or p ''N_eff'' (num (NEFF E)) = num n"
  shows "derive_N_ur E p (map (SNum \<circ> Fin) ms) (map (SNum \<circ> Fin) ts)
    = (if n - sum_list (map (\<lambda>(m, t). t ^ 4) (filter (\<lambda>(m, t). m_massive < m) (zip ms ts)))
              * massive_factor < 0
       then Inl NegativeNur
       else Inr (AList.delete ''N_eff'' p,
                 num (n - sum_list (map (\<lambda>(m, t). t ^ 4)
                            (filter (\<lambda>(m, t). m_massive < m) (zip ms ts))) * massive_factor),
                 map (SNum \<circ> Fin) (filter (\<lambda>m. m_massive < m) ms),
                 map (SNum \<circ> Fin) ts))"
proof -
  define sel where "sel = filter (\<lambda>(m, t). m_massive < m) (zip ms ts)"
  have n: "get_or p ''N_eff'' (Sc (SNum (Fin (NEFF E)))) = Sc (SNum (Fin n))"
    using assms by (simp add: num_def)
  have a: "emap num_scalar (map (SNum \<circ> Fin) ms) = Inr (map Fin ms)"
    by (rule emap_num_Fin)
  have b: "emap num_scalar (map snd (filter fst (zip (map (\<lambda>m. fgt m (Fin m_massive)) (map Fin ms))
              (map (SNum \<circ> Fin) ts)))) = Inr (map Fin (map snd sel))"
    by (simp only: selected_temperatures emap_num_Fin sel_def)
  have c: "map SNum (map snd (filter fst (zip (map (\<lambda>m. fgt m (Fin m_massive)) (map Fin ms))
              (map Fin ms)))) = map (SNum \<circ> Fin) (filter (\<lambda>m. m_massive < m) ms)"
    unfolding select_masses by simp
  have d: "fsub (Fin n) (fmul (Fin s) (Fin massive_factor)) = Fin (n - s * massive_factor)" for s
    by (simp add: fsub_def)
  show ?thesis
    unfolding derive_N_ur_unfold a ebind_def sum.case Let_def b c n pyval.case sum_selected d
      num_scalar_def num_of.simps option.case flt.simps
    by (simp add: sel_def num_def)
qed

lemma has_key_map_of: "has_key d k \<longleftrightarrow> map_of d k \<noteq> None"
  by (simp add: has_key_def map_of_eq_None_iff)

lemma emap_num_SNum: "emap num_scalar (map SNum xs) = Inr xs"
  by (induction xs) (simp_all add: num_scalar_def ebind_def)

lemma selected_in:
  "map snd (filter fst (zip (map P ms) (map f ts)))
     = map f (map snd (filter (\<lambda>(m, t). P m) (zip ms ts)))"
proof (induction ms arbitrary: ts)
  case Nil
  show ?case by simp
next
  case (Cons m ms)
  then show ?case by (cases ts) simp_all
qed

lemma selected_self:
  "map snd (filter fst (zip (map P ms) ms)) = filter P ms"
  by (induction ms) simp_all

text \<open>Lines 889 to 901 on lists of numbers, in any arithmetic.\<close>

lemma derive_N_ur_in_numbers:
  assumes "get_or p ''N_eff'' (Sc (SNum (Fin (NEFF E)))) = Sc (SNum n)"
  shows "derive_N_ur_in A E p (map SNum ms) (map SNum ts)
    = (let N = a_sub A n (a_mul A (sum_in A (map (a_pow4 A)
                 (map snd (filter (\<lambda>(m, t). fgt m (a_m_massive A)) (zip ms ts)))))
               (a_factor A))
       in if flt N (Fin 0) then Inl NegativeNur
          else Inr (AList.delete ''N_eff'' p, Sc (SNum N),
                    map SNum (filter (\<lambda>m. fgt m (a_m_massive A)) ms), map SNum ts))"
  unfolding derive_N_ur_in_def emap_num_SNum ebind_def sum.case Let_def assms
    selected_in selected_self pyval.case num_scalar_def num_of.simps option.case
  by (rule refl)

text \<open>
  C3. The arithmetic \<open>A\<close> of lines 890 to 898 is arbitrary, so the statement holds for the
  floating-point arithmetic of the machine, with \<open>a_m_massive A\<close> the float of \<open>0.00017\<close> and
  \<open>a_factor A\<close> the float of \<open>(4/11)\<^sup>-\<^sup>4\<^sup>/\<^sup>3\<close>. Let lines 723 to 879 end with the
  dictionary \<open>p\<close> and with lists of numbers \<open>ms\<close> (the masses) and \<open>ts\<close> (the temperature
  ratios), for an input that gives no \<^verbatim>\<open>N_ur\<close> (or \<^verbatim>\<open>None\<close>) and none of \<^verbatim>\<open>Omega_ur\<close>,
  \<^verbatim>\<open>omega_ur\<close>, \<^verbatim>\<open>Omega0_ur\<close>, and whose \<^verbatim>\<open>N_eff\<close> (given, or the default) is the number
  \<open>n\<close>. Let \<open>N\<close> be \<open>n\<close> minus the product of the sum of \<open>t\<^sup>4\<close>, over the species whose mass
  exceeds \<open>0.00017\<close>, with \<open>(4/11)\<^sup>-\<^sup>4\<^sup>/\<^sup>3\<close>, all computed in \<open>A\<close>. If \<open>N < 0\<close> the compilation
  raises the error of line 899. Otherwise lines 723 to 906 return a dictionary in which
  \<^verbatim>\<open>N_ur\<close> is \<open>N\<close> and \<^verbatim>\<open>m_ncdm\<close> lists the masses that exceed \<open>0.00017\<close>, in their order, and
  every mapping that \<^verbatim>\<open>compile_params\<close> returns has these two entries.
\<close>

theorem N_ur_derivation:
  fixes A :: arith and ms ts :: "fl list"
  defines "massive \<equiv> \<lambda>m. fgt m (a_m_massive A)"
  defines "N \<equiv> \<lambda>n. a_sub A n (a_mul A (sum_in A (map (a_pow4 A)
                      (map snd (filter (\<lambda>(m, t). massive m) (zip ms ts))))) (a_factor A))"
  assumes run: "neutrino_lists E args = Some (Inr (p, map SNum ms, map SNum ts))"
    and no_N_ur: "map_of args ''N_ur'' = None \<or> map_of args ''N_ur'' = Some (Sc SNone)"
    and no_Omega_ur: "\<not> has_key args ''Omega_ur''" "\<not> has_key args ''omega_ur''"
      "\<not> has_key args ''Omega0_ur''"
    and N_eff: "get_or args ''N_eff'' (Sc (SNum (Fin (NEFF E)))) = Sc (SNum n)"
  shows "if flt (N n) (Fin 0) then compile_params_in A E args = Some (Inl NegativeNur)
         else \<exists>q. compile_neutrinos_in A E args = Some (Inr q)
            \<and> compile_params_in A E args = Some (step_Omega_m E (step_z_pk E q))
            \<and> map_of q ''N_ur'' = Some (Sc (SNum (N n)))
            \<and> map_of q ''m_ncdm'' = Some (Li (map SNum (filter massive ms)))
            \<and> (\<forall>out. compile_params_in A E args = Some (Inr out) \<longrightarrow>
                  map_of out ''N_ur'' = Some (Sc (SNum (N n)))
                  \<and> map_of out ''m_ncdm'' = Some (Li (map SNum (filter massive ms))))"
proof -
  have nur: "get_or p ''N_ur'' (Sc SNone) = Sc SNone"
    using neutrino_lists_N_ur[OF run] no_N_ur by (auto simp: get_or_def)
  have "map_of p ''Omega_ur'' = None"
    using neutrino_lists_Omega_ur[OF run no_Omega_ur(2,3)] no_Omega_ur(1)
    by (simp add: has_key_map_of)
  then have our: "step_Omega_ur p = Inr ()"
    by (simp add: step_Omega_ur_def has_key_map_of)
  have neff: "get_or p ''N_eff'' (Sc (SNum (Fin (NEFF E)))) = Sc (SNum n)"
    using neutrino_lists_N_eff[OF run] N_eff by (simp add: get_or_def)
  define q where "q = AList.update ''T_ncdm'' (Li (map SNum ts))
            (AList.update ''m_ncdm'' (Li (map SNum (filter massive ms)))
              (AList.update ''N_ur'' (Sc (SNum (N n))) (AList.delete ''N_eff'' p)))"
  have block: "N_ur_block_in A E p (map SNum ms) (map SNum ts)
      = (if flt (N n) (Fin 0) then Inl NegativeNur else Inr q)"
    unfolding N_ur_block_in_def Let_def nur our derive_N_ur_in_numbers[OF neff]
    by (simp add: ebind_def q_def N_def massive_def)
  have cn: "compile_neutrinos_in A E args
      = Some (if flt (N n) (Fin 0) then Inl NegativeNur else Inr q)"
    by (simp add: compile_neutrinos_in_def run lbind_def block)
  show ?thesis
  proof (cases "flt (N n) (Fin 0)")
    case True
    with cn show ?thesis by (simp add: compile_params_in_def lbind_def)
  next
    case False
    with cn have c1: "compile_neutrinos_in A E args = Some (Inr q)" by simp
    then have c2: "compile_params_in A E args = Some (step_Omega_m E (step_z_pk E q))"
      by (simp add: compile_params_in_def lbind_def)
    have q1: "map_of q ''N_ur'' = Some (Sc (SNum (N n)))"
      by (simp add: q_def update_conv')
    have q2: "map_of q ''m_ncdm'' = Some (Li (map SNum (filter massive ms)))"
      by (simp add: q_def update_conv')
    have "map_of out k = map_of q k"
      if "compile_params_in A E args = Some (Inr out)" and "k = ''N_ur'' \<or> k = ''m_ncdm''"
      for out k
    proof -
      from that(1) c2 have "step_Omega_m E (step_z_pk E q) = Inr out" by simp
      then have "map_of out k = map_of (step_z_pk E q) k"
        using that(2) by (intro step_Omega_m_keeps) auto
      also have "\<dots> = map_of q k"
        using that(2) by (intro step_z_pk_keeps) auto
      finally show ?thesis .
    qed
    with False c1 c2 q1 q2 show ?thesis by simp
  qed
qed

lemma N_ur_example_lists:
  "neutrino_lists example_env
     [(''h'', num 0.7), (''m_ncdm'', Li [SNum (Fin 0.06), SNum (Fin 0.0001)]),
      (''T_ncdm'', Li [SNum (Fin 0.7), SNum (Fin 0.7)])]
   = Some (Inr ([(''h'', num 0.7), (''T_ncdm'', Li [SNum (Fin 0.7), SNum (Fin 0.7)])],
                map SNum [Fin 0.06, Fin 0.0001], map SNum [Fin 0.7, Fin 0.7]))"
  by (simp add: compile_defs dict_defs Let_def example_env_def)

text \<open>The instance of \<open>N_ur_derivation\<close> in the exact arithmetic for masses \<open>0.06\<close> and
  \<open>0.0001\<close> with temperature ratios \<open>0.7\<close>: the first species is subtracted and stays, the
  second is dropped.\<close>

theorem N_ur_derivation_witness:
  "\<exists>q. compile_neutrinos_in exact_arith example_env
          [(''h'', num 0.7), (''m_ncdm'', Li [SNum (Fin 0.06), SNum (Fin 0.0001)]),
           (''T_ncdm'', Li [SNum (Fin 0.7), SNum (Fin 0.7)])] = Some (Inr q)
     \<and> map_of q ''N_ur'' = Some (num (3.044 - 0.7 ^ 4 * massive_factor))
     \<and> map_of q ''m_ncdm'' = Some (Li [SNum (Fin 0.06)])"
proof -
  have pos: "\<not> (3.044 - 0.7 ^ 4 * massive_factor < 0)"
    using massive_factor_le by (simp add: power4_eq_xxxx)
  have n: "get_or [(''h'', num 0.7), (''m_ncdm'', Li [SNum (Fin 0.06), SNum (Fin 0.0001)]),
      (''T_ncdm'', Li [SNum (Fin 0.7), SNum (Fin 0.7)])] ''N_eff''
        (Sc (SNum (Fin (NEFF example_env)))) = Sc (SNum (Fin 3.044))"
    by (simp add: get_or_def example_env_def)
  have N: "a_sub exact_arith (Fin 3.044) (a_mul exact_arith (sum_in exact_arith
      (map (a_pow4 exact_arith) (map snd (filter (\<lambda>(m, t). fgt m (a_m_massive exact_arith))
         (zip [Fin 0.06, Fin 0.0001] [Fin 0.7, Fin 0.7]))))) (a_factor exact_arith))
      = Fin (3.044 - 0.7 ^ 4 * massive_factor)"
    by (simp add: exact_arith_def sum_in_def fgt_Fin m_massive_def fpow4_Fin fsub_def)
  from N_ur_derivation[OF N_ur_example_lists _ _ _ _ n, of exact_arith] pos show ?thesis
    unfolding N
    by (simp add: has_key_def exact_arith_def fgt_Fin m_massive_def num_def) blast
qed

lemma single_massive_compile:
  assumes "TNCDM E ^ 4 * massive_factor \<le> 3.044"
  shows "compile_neutrinos E [(''h'', num 0.7), (''N_eff'', num 3.044), (''m_ncdm'', num 0.06)]
    = Some (Inr [(''h'', num 0.7), (''N_ur'', num (3.044 - TNCDM E ^ 4 * massive_factor)),
                 (''m_ncdm'', Li [SNum (Fin 0.06)]), (''T_ncdm'', Li [SNum (Fin (TNCDM E))])])"
  using assms
  by (simp add: compile_defs dict_defs Let_def m_massive_def fgt_Fin fpow4_Fin)

text \<open>
  C1, as the code has it. For the input \<^verbatim>\<open>h=0.7, N_eff=3.044, m_ncdm=0.06\<close> (no
  \<^verbatim>\<open>T_ncdm\<close>, \<^verbatim>\<open>N_ur\<close> or \<^verbatim>\<open>Omega_ur\<close>) and a default temperature ratio \<open>T\<close> with
  \<open>T\<^sup>4 (4/11)\<^sup>-\<^sup>4\<^sup>/\<^sup>3 \<le> 3.044\<close>, the compilation returns \<^verbatim>\<open>N_ur\<close> equal to \<open>3.044\<close> minus the
  term \<open>T\<^sup>4 (4/11)\<^sup>-\<^sup>4\<^sup>/\<^sup>3\<close> of the one species, whose mass exceeds \<open>0.00017\<close> and which stays
  in \<^verbatim>\<open>m_ncdm\<close>; that value is below \<open>3.044\<close> unless \<open>T = 0\<close>.
\<close>

theorem N_ur_single_massive:
  assumes "TNCDM E ^ 4 * massive_factor \<le> 3.044"
  shows "\<exists>out. compile_params E [(''h'', num 0.7), (''N_eff'', num 3.044), (''m_ncdm'', num 0.06)]
                 = Some (Inr out)
           \<and> map_of out ''N_ur'' = Some (num (3.044 - TNCDM E ^ 4 * massive_factor))
           \<and> map_of out ''m_ncdm'' = Some (Li [SNum (Fin 0.06)])
           \<and> (TNCDM E \<noteq> 0 \<longrightarrow> 3.044 - TNCDM E ^ 4 * massive_factor < 3.044)"
proof -
  define q where "q = [(''h'', num 0.7), (''N_ur'', num (3.044 - TNCDM E ^ 4 * massive_factor)),
                 (''m_ncdm'', Li [SNum (Fin 0.06)]), (''T_ncdm'', Li [SNum (Fin (TNCDM E))])]"
  have om: "step_Omega_m E (step_z_pk E q) = Inr (step_z_pk E q)"
    by (simp add: step_Omega_m_def has_key_map_of step_z_pk_keeps q_def)
  have "compile_params E [(''h'', num 0.7), (''N_eff'', num 3.044), (''m_ncdm'', num 0.06)]
      = Some (Inr (step_z_pk E q))"
    unfolding compile_params_unfold single_massive_compile[OF assms] lbind_def
    using om by (simp add: q_def)
  moreover have "map_of (step_z_pk E q) ''N_ur'' = Some (num (3.044 - TNCDM E ^ 4 * massive_factor))"
    by (simp add: step_z_pk_keeps q_def)
  moreover have "map_of (step_z_pk E q) ''m_ncdm'' = Some (Li [SNum (Fin 0.06)])"
    by (simp add: step_z_pk_keeps q_def)
  moreover have "TNCDM E \<noteq> 0 \<longrightarrow> 3.044 - TNCDM E ^ 4 * massive_factor < 3.044"
    using massive_factor_pos by simp
  ultimately show ?thesis by blast
qed

lemma example_TNCDM: "TNCDM example_env ^ 4 * massive_factor \<le> 3.044"
proof -
  have "(0.71611 :: real) ^ 4 \<le> 0.3" by (simp add: power4_eq_xxxx)
  then have "(0.71611 :: real) ^ 4 * massive_factor \<le> 0.3 * 8"
    using massive_factor_le massive_factor_pos by (intro mult_mono) simp_all
  then show ?thesis by (simp add: example_env_def)
qed

text \<open>The instance of \<open>N_ur_single_massive\<close> for the default temperature ratio \<open>0.71611\<close>.\<close>

theorem N_ur_single_massive_witness:
  "\<exists>out. compile_params example_env
            [(''h'', num 0.7), (''N_eff'', num 3.044), (''m_ncdm'', num 0.06)] = Some (Inr out)
     \<and> map_of out ''N_ur'' = Some (num (3.044 - 0.71611 ^ 4 * massive_factor))
     \<and> map_of out ''m_ncdm'' = Some (Li [SNum (Fin 0.06)])"
proof -
  have t: "TNCDM example_env = 0.71611" by (simp add: example_env_def)
  from N_ur_single_massive[OF example_TNCDM] show ?thesis unfolding t by blast
qed

text \<open>
  With the default temperature ratio \<open>0.71611\<close> the compilation of
  \<^verbatim>\<open>h=0.7, N_eff=3.044, m_ncdm=0.06\<close> returns an \<^verbatim>\<open>N_ur\<close> that is not \<open>3.044\<close>: the term of
  the massive species is subtracted.
\<close>

theorem N_ur_single_massive_counterexample:
  "compile_params example_env [(''h'', num 0.7), (''N_eff'', num 3.044), (''m_ncdm'', num 0.06)]
     = Some (Inr [(''h'', num 0.7), (''N_ur'', num (3.044 - 0.71611 ^ 4 * massive_factor)),
                  (''m_ncdm'', Li [SNum (Fin 0.06)]), (''T_ncdm'', Li [SNum (Fin 0.71611)]),
                  (''z_pk'', Li [SNum (Fin 0)]), (''modes'', Li [SStr ''s''])])
   \<and> 3.044 - 0.71611 ^ 4 * massive_factor \<noteq> (3.044 :: real)"
proof -
  have "compile_neutrinos example_env
          [(''h'', num 0.7), (''N_eff'', num 3.044), (''m_ncdm'', num 0.06)]
    = Some (Inr [(''h'', num 0.7), (''N_ur'', num (3.044 - 0.71611 ^ 4 * massive_factor)),
                 (''m_ncdm'', Li [SNum (Fin 0.06)]), (''T_ncdm'', Li [SNum (Fin 0.71611)])])"
    using single_massive_compile[OF example_TNCDM] by (simp add: example_env_def)
  then have "compile_params example_env
          [(''h'', num 0.7), (''N_eff'', num 3.044), (''m_ncdm'', num 0.06)]
     = Some (Inr [(''h'', num 0.7), (''N_ur'', num (3.044 - 0.71611 ^ 4 * massive_factor)),
                  (''m_ncdm'', Li [SNum (Fin 0.06)]), (''T_ncdm'', Li [SNum (Fin 0.71611)]),
                  (''z_pk'', Li [SNum (Fin 0)]), (''modes'', Li [SStr ''s''])])"
    by (simp add: compile_params_unfold lbind_def step_z_pk_def step_Omega_m_def dict_defs
        wrap_scalar_def zero_in_def Let_def example_env_def)
  moreover have "3.044 - 0.71611 ^ 4 * massive_factor \<noteq> (3.044 :: real)"
    using massive_factor_pos by simp
  ultimately show ?thesis by blast
qed

subsection \<open>Signs of the listed masses\<close>







subsection \<open>The inverted hierarchy below the sum of its smallest masses\<close>

lemma fadd_NaN: "fadd x NaN = NaN"
  by (cases x) simp_all

lemma sum3_NaN: "sum3 (x, y, NaN) = NaN"
  by (simp add: sum3_def py_sum_def fadd_NaN)

lemma hierarchy_newton_NaN: "hierarchy_newton S d21 d31 m NaN = Some m"
  by (subst hierarchy_newton.simps) (simp add: fsub_def fadd_NaN fgt_def)

lemma sqrt_c_bounds: "0.0492 < sqrt (243 / 10 ^ 5)" "sqrt (243 / 10 ^ 5) < (0.05 :: real)"
proof -
  show "0.0492 < sqrt (243 / 10 ^ 5)"
    by (rule real_less_rsqrt) (simp add: power2_eq_square)
  show "sqrt (243 / 10 ^ 5) < (0.05 :: real)"
    by (rule real_less_lsqrt) (simp_all add: power2_eq_square)
qed

lemma sqrt_ca_bounds:
  "0.05 < sqrt (243 / 10 ^ 5 + 762 / 10 ^ 7)" "sqrt (243 / 10 ^ 5 + 762 / 10 ^ 7) < (0.0501 :: real)"
proof -
  show "0.05 < sqrt (243 / 10 ^ 5 + 762 / 10 ^ 7)"
    by (rule real_less_rsqrt) (simp add: power2_eq_square)
  show "sqrt (243 / 10 ^ 5 + 762 / 10 ^ 7) < (0.0501 :: real)"
    by (rule real_less_lsqrt) (simp_all add: power2_eq_square)
qed

text \<open>
  The first turn of the loop for the inverted hierarchy and a sum \<open>M\<close> with
  \<open>0 \<le> M < 0.099\<close>: the first mass moves below \<open>\<surd>0.00243\<close>, the square root for the
  third mass is taken of a negative number, and the loop stops on the \<open>NaN\<close> sum.
\<close>

lemma inverted_first_turn:
  fixes M :: real
  assumes "0 \<le> M" and "M < 0.099"
  shows "\<exists>x. 0 < x \<and> x * x < 243 / 10 ^ 5
     \<and> solve_newton (Fin M)
          (Fin (sqrt (243 / 10 ^ 5)), Fin (sqrt (243 / 10 ^ 5 + 762 / 10 ^ 7)), Fin (1 / 10 ^ 5))
          (Fin (762 / 10 ^ 7)) (Fin (- (243 / 10 ^ 5)))
       = Some (Fin x, Fin (sqrt (x * x + 762 / 10 ^ 7)), NaN)"
proof -
  define r where "r = sqrt (243 / 10 ^ 5 :: real)"
  define r2 where "r2 = sqrt (243 / 10 ^ 5 + 762 / 10 ^ 7 :: real)"
  define s0 where "s0 = r + r2 + 1 / 10 ^ 5"
  define d where "d = 1 + r / r2 + r / (1 / 10 ^ 5)"
  define x where "x = r + (M - s0) / d"
  have r: "0.0492 < r" "r < 0.05" using sqrt_c_bounds by (simp_all add: r_def)
  have r2: "0.05 < r2" "r2 < 0.0501" using sqrt_ca_bounds by (simp_all add: r2_def)
  have rr: "r * r = 243 / 10 ^ 5" by (simp add: r_def)
  have s0: "0.0992 < s0" "s0 < 0.11" using r r2 by (simp_all add: s0_def)
  have "0 < r / r2" using r r2 by simp
  moreover have "4900 < r / (1 / 10 ^ 5)" using r by simp
  ultimately have d: "4900 < d" by (simp add: d_def)
  have neg: "(M - s0) / d < 0" using assms s0 d by (simp add: divide_neg_pos)
  have "- 0.001 * d < M - s0" using assms s0 d by simp
  moreover have "0 < d" using d by simp
  ultimately have low: "- 0.001 < (M - s0) / d" by (simp add: pos_less_divide_eq)
  have x: "0 < x" "x < r" using neg low r by (simp_all add: x_def)
  then have "x * x < r * r" by (intro mult_strict_mono) simp_all
  then have xx: "x * x < 243 / 10 ^ 5" by (simp add: rr)
  have test: "fgt (fabs (fsub (Fin M) (Fin s0))) (Fin (1 / 10 ^ 15))"
    using assms s0 by (simp add: fsub_def fgt_def)
  have r2nz: "r2 \<noteq> 0" using r2 by simp
  have step: "newton_step (Fin M) (Fin s0) (Fin (762 / 10 ^ 7)) (Fin (- (243 / 10 ^ 5)))
                (Fin r, Fin r2, Fin (1 / 10 ^ 5))
              = (Fin x, Fin (sqrt (x * x + 762 / 10 ^ 7)), NaN)"
  proof -
    have dsdm1: "fadd (fadd (Fin 1) (np_div (Fin r) (Fin r2))) (np_div (Fin r) (Fin (1 / 10 ^ 5)))
        = Fin d"
      using r2nz by (simp add: d_def)
    have diff: "fsub (Fin M) (Fin s0) = Fin (M - s0)" by (simp add: fsub_def)
    have dn: "d \<noteq> 0" using d by simp
    have m0: "fadd (Fin r) (np_div (Fin (M - s0)) (Fin d)) = Fin x"
      using dn by (simp add: x_def)
    have sq: "fsquare (Fin x) = Fin (x * x)" by (simp add: fsquare_def)
    have "0 \<le> x * x + 762 / 10 ^ 7" by (intro add_nonneg_nonneg) simp_all
    then have e: "fsqrt (fadd (Fin (x * x)) (Fin (762 / 10 ^ 7))) = Fin (sqrt (x * x + 762 / 10 ^ 7))"
      by (simp add: not_less)
    have f: "fsqrt (fadd (Fin (x * x)) (Fin (- (243 / 10 ^ 5)))) = NaN" using xx by simp
    show ?thesis
      unfolding newton_step_def
      by (simp only: prod.case Let_def dsdm1 diff m0 sq e f)
  qed
  have start: "sum3 (Fin r, Fin r2, Fin (1 / 10 ^ 5)) = Fin s0"
    by (simp add: sum3_def py_sum_def s0_def)
  have "solve_newton (Fin M) (Fin r, Fin r2, Fin (1 / 10 ^ 5)) (Fin (762 / 10 ^ 7))
          (Fin (- (243 / 10 ^ 5)))
        = Some (Fin x, Fin (sqrt (x * x + 762 / 10 ^ 7)), NaN)"
    unfolding solve_newton_def start
    by (subst hierarchy_newton.simps) (simp only: test if_True step sum3_NaN hierarchy_newton_NaN)
  with x xx show ?thesis unfolding r_def r2_def by blast
qed

lemma inverted_split:
  fixes M :: real
  assumes "0 \<le> M" and "M < 0.099"
    and "\<not> M * M < 243 / 10 ^ 5 + 762 / 10 ^ 7 + 243 / 10 ^ 5"
  shows "\<exists>x. 0 < x
     \<and> split_sum (Sc (SStr ''inverted'')) (Fin M)
       = Some (Inr [SNum (Fin x), SNum (Fin (sqrt (x * x + deltam21sq))), SNum NaN])"
proof -
  from inverted_first_turn[OF assms(1,2)] obtain x where x: "0 < x"
    and run: "solve_newton (Fin M)
          (Fin (sqrt (243 / 10 ^ 5)), Fin (sqrt (243 / 10 ^ 5 + 762 / 10 ^ 7)), Fin (1 / 10 ^ 5))
          (Fin (762 / 10 ^ 7)) (Fin (- (243 / 10 ^ 5)))
       = Some (Fin x, Fin (sqrt (x * x + 762 / 10 ^ 7)), NaN)"
    by blast
  have i1: "fsqrt (Fin (- deltam31sq_inverted)) = Fin (sqrt (243 / 10 ^ 5))"
    by (simp add: deltam31sq_inverted_def)
  have i2: "fsqrt (Fin (- deltam31sq_inverted + deltam21sq)) = Fin (sqrt (243 / 10 ^ 5 + 762 / 10 ^ 7))"
    by (simp add: deltam31sq_inverted_def deltam21sq_def)
  have g: "\<not> flt (fsquare (Fin M)) (Fin (- deltam31sq_inverted + deltam21sq - deltam31sq_inverted))"
    using assms(3) by (simp add: fsquare_def deltam31sq_inverted_def deltam21sq_def)
  have "split_sum (Sc (SStr ''inverted'')) (Fin M)
       = Some (Inr [SNum (Fin x), SNum (Fin (sqrt (x * x + deltam21sq))), SNum NaN])"
    unfolding split_sum_def i1 i2
    using g run by (simp add: masses_list_def deltam21sq_def deltam31sq_inverted_def)
  with x show ?thesis by blast
qed

text \<open>
  C2, on the code: for the inverted hierarchy the sum \<open>0.09\<close> passes the test of line
  867 (\<open>0.09\<^sup>2 = 0.0081\<close> is not below \<open>0.0049362\<close>), no error is raised, and the splitter
  returns three entries of which the third is \<open>NaN\<close>.
\<close>

theorem inverted_009_not_rejected:
  "\<not> flt (fsquare (Fin 0.09))
       (Fin (- deltam31sq_inverted + deltam21sq - deltam31sq_inverted))
   \<and> (\<exists>x. 0 < x
        \<and> split_sum (Sc (SStr ''inverted'')) (Fin 0.09)
          = Some (Inr [SNum (Fin x), SNum (Fin (sqrt (x * x + deltam21sq))), SNum NaN]))"
proof -
  have g: "\<not> (0.09 :: real) * 0.09 < 243 / 10 ^ 5 + 762 / 10 ^ 7 + 243 / 10 ^ 5" by simp
  then have "\<not> flt (fsquare (Fin 0.09))
       (Fin (- deltam31sq_inverted + deltam21sq - deltam31sq_inverted))"
    by (simp add: fsquare_def deltam31sq_inverted_def deltam21sq_def)
  moreover have "\<exists>x. 0 < x
        \<and> split_sum (Sc (SStr ''inverted'')) (Fin 0.09)
          = Some (Inr [SNum (Fin x), SNum (Fin (sqrt (x * x + deltam21sq))), SNum NaN])"
    by (rule inverted_split[OF _ _ g]) simp_all
  ultimately show ?thesis by blast
qed

text \<open>
  C7, on the code: for the inverted hierarchy and the sum \<open>0.0978\<close>, which passes the
  test of line 867, the splitter returns three entries of which the third is \<open>NaN\<close>;
  their sum is \<open>NaN\<close> and is not within \<open>10\<^sup>-\<^sup>1\<^sup>0\<close> of \<open>0.0978\<close>.
\<close>

theorem inverted_00978_nan:
  "\<exists>x y. split_sum (Sc (SStr ''inverted'')) (Fin 0.0978) = Some (Inr [SNum (Fin x), SNum (Fin y), SNum NaN])
     \<and> py_sum [Fin x, Fin y, NaN] = NaN
     \<and> \<not> flt (fabs (fsub (Fin 0.0978) (py_sum [Fin x, Fin y, NaN]))) (Fin (1 / 10 ^ 10))"
proof -
  have g: "\<not> (0.0978 :: real) * 0.0978 < 243 / 10 ^ 5 + 762 / 10 ^ 7 + 243 / 10 ^ 5" by simp
  have "\<exists>x. 0 < x
        \<and> split_sum (Sc (SStr ''inverted'')) (Fin 0.0978)
          = Some (Inr [SNum (Fin x), SNum (Fin (sqrt (x * x + deltam21sq))), SNum NaN])"
    by (rule inverted_split[OF _ _ g]) simp_all
  then obtain x where "split_sum (Sc (SStr ''inverted'')) (Fin 0.0978)
          = Some (Inr [SNum (Fin x), SNum (Fin (sqrt (x * x + deltam21sq))), SNum NaN])"
    by blast
  moreover have "py_sum [Fin x, Fin y, NaN] = NaN" for x y
    by (simp add: py_sum_def)
  moreover have "\<not> flt (fabs (fsub (Fin 0.0978) NaN)) (Fin (1 / 10 ^ 10))"
    by (simp add: fsub_def)
  ultimately show ?thesis by (metis (no_types))
qed

subsection \<open>What \<^verbatim>\<open>clone\<close> changes in the store\<close>

lemma append_z_pk_dicts: "dicts (append_z_pk S d) = dicts S"
  by (simp add: append_z_pk_def split: option.splits href.splits)

lemma append_z_pk_lists:
  "lists (append_z_pk S d) a \<noteq> lists S a \<Longrightarrow>
   map_of d ''z_pk'' = Some (HRef a) \<and> \<not> zero_in (lists S a)
   \<and> lists (append_z_pk S d) a = lists S a @ [SNum (Fin 0)]"
  by (auto simp: append_z_pk_def split: option.splits href.splits if_splits)

lemma compile_params_st_frame:
  assumes "compile_params_st E S a = Some (S', r)"
  shows "dicts S' = dicts S"
    and "lists S' b \<noteq> lists S b \<Longrightarrow>
         map_of (dicts S a) ''z_pk'' = Some (HRef b) \<and> \<not> zero_in (lists S b)
         \<and> lists S' b = lists S b @ [SNum (Fin 0)]"
proof -
  from assms have "S' = S \<or> S' = append_z_pk S (dicts S a)"
    by (auto simp: compile_params_st_def split: option.splits sum.splits)
  then show "dicts S' = dicts S" by (auto simp: append_z_pk_dicts)
  assume "lists S' b \<noteq> lists S b"
  with \<open>S' = S \<or> S' = append_z_pk S (dicts S a)\<close>
  show "map_of (dicts S a) ''z_pk'' = Some (HRef b) \<and> \<not> zero_in (lists S b)
         \<and> lists S' b = lists S b @ [SNum (Fin 0)]"
    using append_z_pk_lists[of S "dicts S a" b] by auto
qed

lemma pair_in_refs: "(k, HRef a) \<in> set d \<Longrightarrow> a \<in> refs d"
  by (force simp: refs_def)

lemma ref_in_refs: "map_of d k = Some (HRef a) \<Longrightarrow> a \<in> refs d"
  using map_of_SomeD pair_in_refs by fastforce

lemma dict_update_source:
  "map_of (dict_update d ms) k = Some v \<Longrightarrow> (k, v) \<in> set ms \<or> map_of d k = Some v"
proof (induction ms arbitrary: d)
  case Nil
  then show ?case by (simp add: dict_update_def)
next
  case (Cons a ms)
  obtain k' v' where a: "a = (k', v')" by (cases a)
  from Cons.prems have "map_of (dict_update (AList.update k' v' d) ms) k = Some v"
    by (simp add: dict_update_def a)
  from Cons.IH[OF this] show ?case
    by (auto simp: a update_conv' split: if_splits)
qed

lemma dropped_source:
  "map_of (filter (\<lambda>(k, v). k \<notin> D) d) k = Some v \<Longrightarrow> map_of d k = Some v"
  by (simp add: map_of_dropped split: if_splits)

text \<open>
  What lines 591 and 592 change in the store, whether line 592 returns a mapping or
  raises: the dictionary \<^verbatim>\<open>self._params\<close> keeps its entries, bound to the same objects, and
  the one list whose content can change is the list that the merged mapping (the
  overrides over the entries of \<^verbatim>\<open>self._params\<close>) binds to \<^verbatim>\<open>z_pk\<close>, which gets \<open>0\<close>
  appended on line 918 when \<^verbatim>\<open>0 in z_pk\<close> is false.
\<close>

lemma clone_changes:
  assumes run: "clone E S self params = Some (S', r)"
    and allocated: "self < fresh S"
  shows "dicts S' self = dicts S self
     \<and> (\<forall>a. lists S' a \<noteq> lists S a \<longrightarrow>
            map_of (merge_params (dicts S self) params) ''z_pk'' = Some (HRef a)
            \<and> \<not> zero_in (lists S a) \<and> lists S' a = lists S a @ [SNum (Fin 0)])
     \<and> ((\<forall>a \<in> refs params. a \<notin> refs (dicts S self))
          \<and> (\<forall>a. map_of (dicts S self) ''z_pk'' = Some (HRef a) \<longrightarrow> zero_in (lists S a))
          \<longrightarrow> (\<forall>a \<in> refs (dicts S self). lists S' a = lists S a))"
proof (cases "check_params params")
  case (Inl e)
  with run have "S' = S" by (simp add: clone_def)
  then show ?thesis by simp
next
  case (Inr u)
  define S1 where "S1 = S\<lparr>dicts := (dicts S)(fresh S := dicts S self), fresh := Suc (fresh S)\<rparr>"
  define S2 where "S2 = merge_params_st S1 (fresh S) params"
  from run Inr have st: "compile_params_st E S2 (fresh S) = Some (S', r)"
    by (simp add: clone_def dict_copy_def S1_def S2_def)
  have d2: "dicts S2 = (dicts S)(fresh S := merge_params (dicts S self) params)"
    by (simp add: S2_def S1_def merge_params_st_def)
  have l2: "lists S2 = lists S"
    by (simp add: S2_def S1_def merge_params_st_def)
  have merged: "dicts S2 (fresh S) = merge_params (dicts S self) params"
    by (simp add: d2)
  have 1: "dicts S' self = dicts S self"
    using compile_params_st_frame(1)[OF st] d2 allocated by simp
  have 2: "map_of (merge_params (dicts S self) params) ''z_pk'' = Some (HRef a)
            \<and> \<not> zero_in (lists S a) \<and> lists S' a = lists S a @ [SNum (Fin 0)]"
    if "lists S' a \<noteq> lists S a" for a
    using compile_params_st_frame(2)[OF st, of a] that by (simp add: l2 merged)
  have 3: "lists S' a = lists S a"
    if sep: "\<forall>a \<in> refs params. a \<notin> refs (dicts S self)"
      and z: "\<forall>a. map_of (dicts S self) ''z_pk'' = Some (HRef a) \<longrightarrow> zero_in (lists S a)"
      and a: "a \<in> refs (dicts S self)" for a
  proof (rule ccontr)
    assume "lists S' a \<noteq> lists S a"
    from 2[OF this] have m: "map_of (merge_params (dicts S self) params) ''z_pk'' = Some (HRef a)"
      and nz: "\<not> zero_in (lists S a)" by simp_all
    from m have "map_of (dict_update
               (filter (\<lambda>(k, v). k \<notin> (\<Union>n \<in> set (map fst params). set (find_conflicts n)))
                  (dicts S self)) params) ''z_pk'' = Some (HRef a)"
      by (simp only: merge_params_def fold_pop_conflicts_filter)
    then have "(''z_pk'', HRef a) \<in> set params
        \<or> map_of (dicts S self) ''z_pk'' = Some (HRef a)"
      using dict_update_source dropped_source by fast
    then show False
    proof
      assume "(''z_pk'', HRef a) \<in> set params"
      then have "a \<in> refs params" by (rule pair_in_refs)
      with sep a show False by blast
    next
      assume "map_of (dicts S self) ''z_pk'' = Some (HRef a)"
      with z nz show False by blast
    qed
  qed
  from 1 2 3 show ?thesis by blast
qed

text \<open>
  C10. The instance has the mapping that \<^verbatim>\<open>h=0.7, N_ur=2, m_ncdm=[0.06]\<close> compiles to, with
  its list of masses at address \<open>0\<close>. It is cloned with that list as the override for
  \<^verbatim>\<open>z_pk\<close> (\<^verbatim>\<open>cosmo.clone(z_pk=cosmo['m_ncdm'])\<close>). Lines 591 and 592 raise nothing and
  the new mapping has \<^verbatim>\<open>z_pk = [0.06, 0]\<close>; the dictionary of the instance is the one it
  was, but the list it binds to \<^verbatim>\<open>m_ncdm\<close>, which was \<^verbatim>\<open>[0.06]\<close>, is now \<^verbatim>\<open>[0.06, 0]\<close>:
  line 918 has appended to the list of the instance, not to a copy.
\<close>

theorem clone_appends_to_base_list:
  "\<exists>S' r. clone example_env example_store 0 [(''z_pk'', HRef 0)] = Some (S', Inr r)
     \<and> map_of r ''z_pk'' = Some (Li [SNum (Fin 0.06), SNum (Fin 0)])
     \<and> dicts S' 0 = dicts example_store 0
     \<and> map_of (dicts example_store 0) ''m_ncdm'' = Some (HRef 0)
     \<and> lists example_store 0 = [SNum (Fin 0.06)]
     \<and> lists S' 0 = [SNum (Fin 0.06), SNum (Fin 0)]
     \<and> map_of (deref_dict example_store (dicts example_store 0)) ''m_ncdm''
          = Some (Li [SNum (Fin 0.06)])
     \<and> map_of (deref_dict S' (dicts S' 0)) ''m_ncdm''
          = Some (Li [SNum (Fin 0.06), SNum (Fin 0)])"
proof -
  have run: "clone example_env example_store 0 [(''z_pk'', HRef 0)]
   = Some (example_store
             \<lparr>dicts := (dicts example_store)
                 (1 := [(''h'', HSc (SNum (Fin 0.7))), (''N_ur'', HSc (SNum (Fin 2))),
                        (''m_ncdm'', HRef 0), (''T_ncdm'', HRef 1), (''z_pk'', HRef 0),
                        (''modes'', HRef 3)]),
               lists := (lists example_store)(0 := [SNum (Fin 0.06), SNum (Fin 0)]),
               fresh := 2\<rparr>,
           Inr [(''h'', num 0.7), (''N_ur'', num 2), (''T_ncdm'', Li [SNum (Fin 0.71611)]),
                (''z_pk'', Li [SNum (Fin 0.06), SNum (Fin 0)]), (''modes'', Li [SStr ''s'']),
                (''m_ncdm'', Li [SNum (Fin 0.06)])])"
    by (simp add: clone_def check_params_def conf_of_def find_conflicts_def conflicts_def
      dict_copy_def merge_params_st_def merge_params_def pop_conflicts_def dict_update_def
      compile_params_st_def append_z_pk_def deref_dict_def example_store_def
      compile_neutrinos_unfold neutrino_lists_def normalise_def step_H0_def
      step_ln_A_s_def step_Omega_g_def read_masses_def listify_def apply_hierarchy_def
      N_ur_block_unfold step_Omega_ur_def step_z_pk_def step_Omega_m_def
      wrap_scalar_def set_alias_def aliases_def step_omega_def num_def
      zero_in_def dict_defs Let_def example_env_def)
  show ?thesis
    unfolding run by (simp add: example_store_def deref_dict_def)
qed

end
